theory Spec2Isabelle
  imports
    Complex_Main
    "HOL-Library.Product_Lexorder"
    "HOL-Library.List_Lexorder"
    "HOL-Library.Char_ord"
begin

section \<open>JavaScript numbers\<close>

text \<open>
  The scores handled by \<^verbatim>\<open>CurveManager.js\<close> are JavaScript numbers, that is IEEE 754
  doubles. A finite number is modelled by the real it stands for; the three non-finite
  values are kept apart, since the code tests for them with \<^verbatim>\<open>Number.isFinite\<close>. The
  two zeros are one.
\<close>

datatype jsnum = Fin real | PosInf | NegInf | NaN

text \<open>
  An arithmetic operation yields the exact result rounded to the nearest double, ties to
  the even significand: 53 bits of significand, exponents from -1022 (below which the
  spacing stays 2 to the -1074) to 1023, and infinity from 2 to the 1024 minus 2 to the
  970 on, the midpoint between the largest double and 2 to the 1024.
\<close>

definition pow2 :: "int \<Rightarrow> real" where
  "pow2 k = (if 0 \<le> k then 2 ^ nat k else 1 / 2 ^ nat (- k))"

definition roundToEven :: "real \<Rightarrow> int" where
  "roundToEven n =
     (if n - of_int \<lfloor>n\<rfloor> < 1 / 2 then \<lfloor>n\<rfloor>
      else if 1 / 2 < n - of_int \<lfloor>n\<rfloor> then \<lfloor>n\<rfloor> + 1
      else if even \<lfloor>n\<rfloor> then \<lfloor>n\<rfloor> else \<lfloor>n\<rfloor> + 1)"

definition exponent :: "real \<Rightarrow> int" where
  "exponent x = max \<lfloor>log 2 \<bar>x\<bar>\<rfloor> (- 1022)"

text \<open>
  \<open>fl x\<close> is the double nearest to \<open>x\<close>. The lemma \<open>fl_in_binade\<close> below evaluates it
  once the power of two at or below the magnitude of \<open>x\<close> is given.
\<close>

definition fl :: "real \<Rightarrow> jsnum" where
  "fl x =
     (if x = 0 then Fin 0
      else if 2 ^ 1024 - 2 ^ 970 \<le> \<bar>x\<bar> then (if 0 < x then PosInf else NegInf)
      else Fin (sgn x * of_int (roundToEven (\<bar>x\<bar> / pow2 (exponent x - 52)))
                * pow2 (exponent x - 52)))"

fun isFinite :: "jsnum \<Rightarrow> bool" where
  "isFinite (Fin r) = True"
| "isFinite n = False"

text \<open>\<^verbatim>\<open>Number.isFinite(v)\<close> on a field that may be missing or not a number.\<close>

fun Number_isFinite :: "jsnum option \<Rightarrow> bool" where
  "Number_isFinite (Some (Fin r)) = True"
| "Number_isFinite v = False"

fun Math_abs :: "jsnum \<Rightarrow> jsnum" where
  "Math_abs (Fin r) = Fin \<bar>r\<bar>"
| "Math_abs PosInf = PosInf"
| "Math_abs NegInf = PosInf"
| "Math_abs NaN = NaN"

fun js_plus :: "jsnum \<Rightarrow> jsnum \<Rightarrow> jsnum" where
  "js_plus (Fin a) (Fin b) = fl (a + b)"
| "js_plus NaN b = NaN"
| "js_plus a NaN = NaN"
| "js_plus PosInf NegInf = NaN"
| "js_plus NegInf PosInf = NaN"
| "js_plus PosInf b = PosInf"
| "js_plus NegInf b = NegInf"
| "js_plus (Fin a) PosInf = PosInf"
| "js_plus (Fin a) NegInf = NegInf"

fun js_minus :: "jsnum \<Rightarrow> jsnum \<Rightarrow> jsnum" where
  "js_minus (Fin a) (Fin b) = fl (a - b)"
| "js_minus NaN b = NaN"
| "js_minus a NaN = NaN"
| "js_minus PosInf PosInf = NaN"
| "js_minus NegInf NegInf = NaN"
| "js_minus PosInf b = PosInf"
| "js_minus NegInf b = NegInf"
| "js_minus (Fin a) PosInf = NegInf"
| "js_minus (Fin a) NegInf = PosInf"

text \<open>Division; a zero divisor counts as positive.\<close>

fun js_divide :: "jsnum \<Rightarrow> jsnum \<Rightarrow> jsnum" where
  "js_divide (Fin a) (Fin b) =
     (if b = 0 then (if a = 0 then NaN else if 0 < a then PosInf else NegInf)
      else fl (a / b))"
| "js_divide NaN b = NaN"
| "js_divide a NaN = NaN"
| "js_divide PosInf (Fin b) = (if 0 \<le> b then PosInf else NegInf)"
| "js_divide NegInf (Fin b) = (if 0 \<le> b then NegInf else PosInf)"
| "js_divide (Fin a) b = Fin 0"
| "js_divide a b = NaN"

text \<open>\<^verbatim>\<open>Math.max(0, v)\<close>.\<close>

fun Math_max0 :: "jsnum \<Rightarrow> jsnum" where
  "Math_max0 (Fin r) = Fin (max 0 r)"
| "Math_max0 PosInf = PosInf"
| "Math_max0 NegInf = Fin 0"
| "Math_max0 NaN = NaN"

text \<open>Strict inequality \<^verbatim>\<open>a !== b\<close> of two numbers: \<^verbatim>\<open>NaN\<close> differs from everything.\<close>

fun js_neq :: "jsnum \<Rightarrow> jsnum \<Rightarrow> bool" where
  "js_neq NaN b = True"
| "js_neq a NaN = True"
| "js_neq a b = (a \<noteq> b)"

text \<open>A comparator result is read by \<^verbatim>\<open>Array.prototype.sort\<close> through its sign.\<close>

fun js_positive :: "jsnum \<Rightarrow> bool" where
  "js_positive (Fin r) = (0 < r)"
| "js_positive PosInf = True"
| "js_positive n = False"

section \<open>Sorting with a comparator\<close>

text \<open>
  \<^verbatim>\<open>Array.prototype.sort(cmp)\<close> is stable, and for a consistent comparator its result
  is the one stable arrangement; it is modelled by stable insertion: an element moves
  behind exactly those elements it compares greater than.
\<close>

fun insert_cmp :: "('a \<Rightarrow> 'a \<Rightarrow> jsnum) \<Rightarrow> 'a \<Rightarrow> 'a list \<Rightarrow> 'a list" where
  "insert_cmp cmp x [] = [x]"
| "insert_cmp cmp x (y # ys) =
     (if js_positive (cmp x y) then y # insert_cmp cmp x ys else x # y # ys)"

definition js_sort :: "('a \<Rightarrow> 'a \<Rightarrow> jsnum) \<Rightarrow> 'a list \<Rightarrow> 'a list" where
  "js_sort cmp xs = foldr (insert_cmp cmp) xs []"

section \<open>Strategy results and their error score\<close>

type_synonym point = "real \<times> real"

record preKnot =
  pk_knot :: real
  pk_priority :: int

record segment =
  seg_rmsError :: "jsnum option"

record attemptDiagnostic =
  ad_label :: string
  ad_type :: "string option"
  ad_success :: bool
  ad_priority :: int
  ad_error :: "real option"

record diagnostics =
  rmsError :: "jsnum option"
  selectedApproximator :: "string option"
  approximatorPriority :: "int option"
  alternatives :: "attemptDiagnostic list option"

text \<open>
  The object a strategy returns. A field that the code tests before use is an option:
  \<open>None\<close> stands for a missing field or one of another type.
\<close>

record approximation =
  ap_success :: bool
  ap_type :: "string option"
  ap_diagnostics :: "diagnostics option"
  ap_averageLinearity :: "jsnum option"
  ap_segments :: "segment option list option"
  ap_svgPath :: string
  ap_latexEquations :: "string list"
  ap_knots :: "real list list option"
  ap_preKnots :: "preKnot list option"
  ap_exportData :: "string option"

text \<open>The callback of \<^verbatim>\<open>segments.map\<close> in \<^verbatim>\<open>getErrorScore\<close>, followed by the filter.\<close>

fun segmentError :: "segment option \<Rightarrow> jsnum option" where
  "segmentError None = None"
| "segmentError (Some seg) =
     (if Number_isFinite (seg_rmsError seg) then map_option Math_abs (seg_rmsError seg)
      else None)"

definition segmentErrors :: "segment option list \<Rightarrow> real list" where
  "segmentErrors segs =
     concat (map (\<lambda>seg. case segmentError seg of Some (Fin r) \<Rightarrow> [r] | _ \<Rightarrow> []) segs)"

definition getErrorScore :: "approximation option \<Rightarrow> jsnum" where
  "getErrorScore approximation =
     (case approximation of
        None \<Rightarrow> PosInf
      | Some a \<Rightarrow>
          if \<not> ap_success a then PosInf
          else if (case ap_diagnostics a of None \<Rightarrow> False
                   | Some d \<Rightarrow> Number_isFinite (rmsError d))
          then (case ap_diagnostics a of None \<Rightarrow> PosInf
                | Some d \<Rightarrow> (case rmsError d of None \<Rightarrow> PosInf | Some r \<Rightarrow> Math_abs r))
          else (case ap_averageLinearity a of
                  Some l \<Rightarrow> Math_max0 (js_minus (Fin 1) l)
                | None \<Rightarrow>
                   (case ap_segments a of
                      None \<Rightarrow> PosInf
                    | Some segs \<Rightarrow>
                        if segmentErrors segs \<noteq> []
                        then js_divide
                               (foldl js_plus (Fin 0) (map Fin (segmentErrors segs)))
                               (Fin (real (length (segmentErrors segs))))
                        else PosInf)))"

section \<open>Ranking the attempts of one stroke\<close>

record attempt =
  at_label :: string
  at_approximation :: "approximation option"
  at_priority :: int
  at_error :: jsnum

definition registerAttempt :: "string \<Rightarrow> approximation option \<Rightarrow> int \<Rightarrow> attempt" where
  "registerAttempt label approximation priority =
     \<lparr>at_label = label, at_approximation = approximation, at_priority = priority,
      at_error = getErrorScore approximation\<rparr>"

text \<open>What the six strategies returned for the stroke (\<open>None\<close>: no result object).\<close>

record strategyResults =
  piecewiseResult :: "approximation option"
  linearResult :: "approximation option"
  singleQuadraticResult :: "approximation option"
  singleCircleResult :: "approximation option"
  quadraticBSplineResult :: "approximation option"
  selectiveResult :: "approximation option"

definition succeeded :: "approximation option \<Rightarrow> bool" where
  "succeeded approximation = (case approximation of None \<Rightarrow> False | Some a \<Rightarrow> ap_success a)"

definition linearPriority :: "approximation option \<Rightarrow> int" where
  "linearPriority r =
     (if succeeded r \<and> Option.bind r ap_type = Some ''constant'' then 1 else 2)"

definition linearLabel :: "approximation option \<Rightarrow> string" where
  "linearLabel r =
     (if succeeded r \<and> Option.bind r ap_type = Some ''vertical'' then ''linearVertical''
      else ''linear'')"

definition attempts :: "strategyResults \<Rightarrow> attempt list" where
  "attempts rs =
     [registerAttempt ''piecewiseLinear'' (piecewiseResult rs) 0,
      registerAttempt (linearLabel (linearResult rs)) (linearResult rs)
        (linearPriority (linearResult rs)),
      registerAttempt ''singleQuadratic'' (singleQuadraticResult rs) 3,
      registerAttempt ''singleCircle'' (singleCircleResult rs) 4,
      registerAttempt ''quadraticBSpline'' (quadraticBSplineResult rs) 5,
      registerAttempt ''selectiveHybrid'' (selectiveResult rs) 7]"

definition successfulAttempts :: "strategyResults \<Rightarrow> attempt list" where
  "successfulAttempts rs = filter (\<lambda>entry. succeeded (at_approximation entry)) (attempts rs)"

text \<open>
  The comparator handed to \<^verbatim>\<open>successfulAttempts.sort\<close>. The label comparison
  \<^verbatim>\<open>a.label.localeCompare(b.label)\<close> depends on the host's collation and is the
  parameter \<open>localeCompare\<close>.
\<close>

definition sortError :: "jsnum \<Rightarrow> jsnum" where
  "sortError e = (if isFinite e then e else PosInf)"

definition compareAttempts :: "(string \<Rightarrow> string \<Rightarrow> int) \<Rightarrow> attempt \<Rightarrow> attempt \<Rightarrow> jsnum" where
  "compareAttempts localeCompare a b =
     (if at_priority a \<noteq> at_priority b then Fin (real_of_int (at_priority a - at_priority b))
      else if js_neq (sortError (at_error a)) (sortError (at_error b))
      then js_minus (sortError (at_error a)) (sortError (at_error b))
      else Fin (real_of_int (localeCompare (at_label a) (at_label b))))"

definition bestAttempt :: "(string \<Rightarrow> string \<Rightarrow> int) \<Rightarrow> strategyResults \<Rightarrow> attempt option" where
  "bestAttempt localeCompare rs =
     (case js_sort (compareAttempts localeCompare) (successfulAttempts rs) of
        [] \<Rightarrow> None
      | first # rest \<Rightarrow> Some first)"

definition attemptDiagnostics :: "strategyResults \<Rightarrow> attemptDiagnostic list" where
  "attemptDiagnostics rs =
     map (\<lambda>entry.
            \<lparr>ad_label = at_label entry,
             ad_type = Option.bind (at_approximation entry) ap_type,
             ad_success = succeeded (at_approximation entry),
             ad_priority = at_priority entry,
             ad_error = (case at_error entry of Fin r \<Rightarrow> Some r | _ \<Rightarrow> None)\<rparr>)
         (attempts rs)"

text \<open>
  The order the selection is specified by: priority, then error score with every
  non-finite score behind the finite ones, then label in the order of character codes.
\<close>

definition errorRank :: "jsnum \<Rightarrow> nat \<times> real" where
  "errorRank e = (case e of Fin r \<Rightarrow> (0, r) | _ \<Rightarrow> (1, 0))"

definition rankKey :: "attempt \<Rightarrow> int \<times> (nat \<times> real) \<times> string" where
  "rankKey a = (at_priority a, errorRank (at_error a), at_label a)"

definition codeUnitCompare :: "string \<Rightarrow> string \<Rightarrow> int" where
  "codeUnitCompare a b = (if a < b then - 1 else if a = b then 0 else 1)"

section \<open>The curve store\<close>

text \<open>
  The model covers the data of the manager: the array \<^verbatim>\<open>this.curves\<close>, the counter
  \<^verbatim>\<open>settings.nextCurveId\<close>, the selection \<^verbatim>\<open>settings.selectCurveId\<close>, whether a graph
  calculator is attached, and the calls made to \<^verbatim>\<open>historyManager.addAction\<close>. Calls
  into the document, d3 and the graph calculator are taken to return normally; what they
  draw is not part of the state. Two effects of the drawing code that the stored data
  decides are modelled: a method call on a curve whose \<^verbatim>\<open>path\<close> is \<^verbatim>\<open>null\<close> throws, and
  building a list item may write a knot count (see below). A curve's \<^verbatim>\<open>path\<close> is
  modelled by its path data, which \<^verbatim>\<open>redrawCurves\<close> copies into the element it
  re-creates. Ids are integers (\<^verbatim>\<open>NaN\<close> is left out), and the equations, the export data
  and the graph curve of a curve are opaque values.
\<close>

record curve =
  cv_id :: nat
  cv_type :: "string option"
  cv_path :: "string option"
  cv_color :: "string option"
  cv_size :: "real option"
  cv_locked :: bool
  cv_isHidden :: bool
  cv_isDetailShown :: bool
  cv_showKnots :: "bool option"
  cv_graphCurve :: "nat option"
  cv_latexEquations :: "string list"
  cv_preKnots :: "preKnot list"
  cv_knotCount :: int
  cv_knotPoints :: "real list list option"
  cv_originalPoints :: "point list option"
  cv_minKnots :: "int option"
  cv_maxKnots :: "int option"
  cv_approximationType :: "string option"
  cv_approximationData :: "string option"
  cv_approximationDiagnostics :: "diagnostics option"
  cv_selectedApproximator :: "string option"
  cv_approximatorPriority :: "int option"

text \<open>A slot of the array is a curve or empty (\<^verbatim>\<open>null\<close>, \<^verbatim>\<open>undefined\<close> or a hole).\<close>

type_synonym store = "curve option list"

datatype action =
    ActAdd "curve option"
  | ActToggleVisibility int bool bool
  | ActToggleDetails int bool bool
  | ActDelete curve int nat
  | ActClear store
  | ActReorder int int
  | ActStyleChange int "string option" "real option" "string option" "real option"
  | ActKnotCountChanged int int int

text \<open>
  Every call of \<^verbatim>\<open>addAction\<close> is logged together with the store as it stands at the
  moment of the call, which is what the history collaborator can observe then.
\<close>

record manager =
  curves :: store
  nextCurveId :: nat
  selectCurveId :: "int option"
  graphCalculator :: bool
  history :: "(action \<times> store) list"

datatype 'a outcome = Returned 'a | Threw

definition addAction :: "action \<Rightarrow> manager \<Rightarrow> manager" where
  "addAction a s = s\<lparr>history := history s @ [(a, curves s)]\<rparr>"

text \<open>\<^verbatim>\<open>this.curves[id]\<close> for an integer and for a non-negative id.\<close>

definition lookup :: "store \<Rightarrow> int \<Rightarrow> curve option" where
  "lookup cs i = (if 0 \<le> i \<and> i < int (length cs) then cs ! nat i else None)"

definition slot :: "store \<Rightarrow> nat \<Rightarrow> curve option" where
  "slot cs i = (if i < length cs then cs ! i else None)"

text \<open>\<^verbatim>\<open>this.curves[id] = v\<close>: an assignment beyond the end extends the array with holes.\<close>

definition assignSlot :: "store \<Rightarrow> nat \<Rightarrow> curve option \<Rightarrow> store" where
  "assignSlot cs i v =
     (if i < length cs then cs[i := v] else cs @ replicate (i - length cs) None @ [v])"

text \<open>The start index of \<^verbatim>\<open>Array.prototype.splice\<close>, clamped as the language defines.\<close>

definition spliceStart :: "nat \<Rightarrow> int \<Rightarrow> nat" where
  "spliceStart len start =
     (if start < 0 then nat (max (int len + start) 0) else min (nat start) len)"

definition spliceDelete :: "store \<Rightarrow> int \<Rightarrow> store" where
  "spliceDelete cs start =
     (let k = spliceStart (length cs) start in take k cs @ drop (Suc k) cs)"

definition spliceInsert :: "store \<Rightarrow> int \<Rightarrow> curve option \<Rightarrow> store" where
  "spliceInsert cs start v =
     (let k = spliceStart (length cs) start in take k cs @ v # drop k cs)"

text \<open>The \<^verbatim>\<open>forEach\<close> that rewrites the id of every non-empty slot to its index.\<close>

definition renumber :: "store \<Rightarrow> store" where
  "renumber cs = map2 (\<lambda>index. map_option (\<lambda>c. c\<lparr>cv_id := index\<rparr>)) [0..<length cs] cs"

text \<open>\<^verbatim>\<open>redrawCurves\<close> reads the path of every curve; it completes when each has one.\<close>

definition drawable :: "store \<Rightarrow> bool" where
  "drawable cs = list_all (\<lambda>s. case s of None \<Rightarrow> True | Some c \<Rightarrow> cv_path c \<noteq> None) cs"

subsection \<open>The curve list of the side bar\<close>

text \<open>
  Building the list item of a curve is document work, with one exception that reaches
  the store: for a curve of type \<^verbatim>\<open>quadratic\<close>, \<^verbatim>\<open>addCurveToList\<close> calls
  \<^verbatim>\<open>createKnotCountSlider\<close>, which, when the curve has a graph curve, ends by assigning
  \<^verbatim>\<open>curve.knotCount || curve.latexEquations.length + 1\<close> to \<^verbatim>\<open>curve.knotCount\<close>.
\<close>

definition createKnotCountSlider :: "curve \<Rightarrow> curve" where
  "createKnotCountSlider curve =
     (if cv_graphCurve curve = None then curve
      else curve\<lparr>cv_knotCount :=
             (if cv_knotCount curve \<noteq> 0 then cv_knotCount curve
              else int (length (cv_latexEquations curve)) + 1)\<rparr>)"

definition listItem :: "curve \<Rightarrow> curve" where
  "listItem curve =
     (if cv_type curve = Some ''quadratic'' then createKnotCountSlider curve else curve)"

definition addCurveToList :: "nat \<Rightarrow> store \<Rightarrow> store" where
  "addCurveToList cid cs =
     (case slot cs cid of None \<Rightarrow> cs | Some curve \<Rightarrow> cs[cid := Some (listItem curve)])"

text \<open>\<^verbatim>\<open>updateCurveList\<close> rebuilds the item of every non-empty slot.\<close>

definition updateCurveList :: "store \<Rightarrow> store" where
  "updateCurveList cs = map (map_option listItem) cs"

subsection \<open>Creating curves\<close>

record curveDescriptor =
  d_id :: nat
  d_type :: "string option"
  d_path :: "string option"
  d_color :: "string option"
  d_size :: "real option"
  d_locked :: "bool option"
  d_graphCurve :: "nat option"
  d_latexEquations :: "string list option"
  d_preKnots :: "preKnot list option"
  d_originalPoints :: "point list option"
  d_minKnots :: "int option"
  d_maxKnots :: "int option"
  d_approximationType :: "string option"
  d_approximationData :: "string option"
  d_approximationDiagnostics :: "diagnostics option"
  d_selectedApproximator :: "string option"
  d_approximatorPriority :: "int option"

text \<open>The operator \<^verbatim>\<open>||\<close> on values whose falsy members are the empty string and zero.\<close>

definition orString :: "string option \<Rightarrow> string option \<Rightarrow> string option" where
  "orString a b = (if a = None \<or> a = Some [] then b else a)"

definition orNumber :: "'a::zero option \<Rightarrow> 'a option \<Rightarrow> 'a option" where
  "orNumber a b = (if a = None \<or> a = Some 0 then b else a)"

definition newCurve :: "curveDescriptor \<Rightarrow> curve" where
  "newCurve d =
     \<lparr>cv_id = d_id d,
      cv_type = d_type d,
      cv_path = d_path d,
      cv_color = d_color d,
      cv_size = d_size d,
      cv_locked = (d_locked d = Some True),
      cv_isHidden = False,
      cv_isDetailShown = True,
      cv_showKnots = None,
      cv_graphCurve = d_graphCurve d,
      cv_latexEquations = (case d_latexEquations d of None \<Rightarrow> [] | Some eqs \<Rightarrow> eqs),
      cv_preKnots = (case d_preKnots d of None \<Rightarrow> [] | Some ks \<Rightarrow> ks),
      cv_knotCount = (case d_latexEquations d of None \<Rightarrow> 0 | Some eqs \<Rightarrow> int (length eqs) + 1),
      cv_knotPoints = None,
      cv_originalPoints = d_originalPoints d,
      cv_minKnots = orNumber (d_minKnots d) (Some 2),
      cv_maxKnots = orNumber (d_maxKnots d) (Some 10),
      cv_approximationType = orString (d_approximationType d) (orString (d_type d) None),
      cv_approximationData = d_approximationData d,
      cv_approximationDiagnostics = d_approximationDiagnostics d,
      cv_selectedApproximator = orString (d_selectedApproximator d) None,
      cv_approximatorPriority = d_approximatorPriority d\<rparr>"

definition addCurve :: "curveDescriptor \<Rightarrow> manager \<Rightarrow> manager" where
  "addCurve d s =
     (let targetId = d_id d;
          s1 = (if slot (curves s) targetId \<noteq> None
                then s\<lparr>curves := (curves s)[targetId := Some (newCurve d)]\<rparr>
                else s\<lparr>curves := curves s @ [Some (newCurve d)]\<rparr>);
          s2 = s1\<lparr>curves := addCurveToList targetId (curves s1)\<rparr>
      in addAction (ActAdd (slot (curves s2) targetId)) s2)"

record approximatorSettings =
  as_color :: "string option"
  as_size :: "real option"
  as_showKnotsDefault :: "bool option"

record handDrawnDescriptor =
  hd_id :: nat
  hd_domainPath :: "point list"
  hd_color :: "string option"
  hd_size :: "real option"
  hd_useAdvancedMode :: bool
  hd_approximatorSettings :: approximatorSettings

datatype message =
    DescriptorRequired
  | ApproximatedAs string
  | AdvancedModeAdded
  | AdvancedModeFailed
  | ApproximationFailed

record addResult =
  r_success :: bool
  r_message :: message
  r_curve :: "nat option"
  r_diagnostics :: "diagnostics option"

definition placeholder :: "handDrawnDescriptor \<Rightarrow> curve" where
  "placeholder d =
     \<lparr>cv_id = hd_id d,
      cv_type = Some ''unknown'',
      cv_path = None,
      cv_color = orString (hd_color d)
                   (orString (as_color (hd_approximatorSettings d)) (Some ''#000'')),
      cv_size = orNumber (hd_size d) (orNumber (as_size (hd_approximatorSettings d)) (Some 1)),
      cv_locked = False,
      cv_isHidden = False,
      cv_isDetailShown = True,
      cv_showKnots = Some (case as_showKnotsDefault (hd_approximatorSettings d) of
                             None \<Rightarrow> True | Some b \<Rightarrow> b),
      cv_graphCurve = None,
      cv_latexEquations = [],
      cv_preKnots = [],
      cv_knotCount = 0,
      cv_knotPoints = None,
      cv_originalPoints = Some (hd_domainPath d),
      cv_minKnots = None,
      cv_maxKnots = None,
      cv_approximationType = None,
      cv_approximationData = None,
      cv_approximationDiagnostics = None,
      cv_selectedApproximator = None,
      cv_approximatorPriority = None\<rparr>"

definition emptyDiagnostics :: diagnostics where
  "emptyDiagnostics =
     \<lparr>rmsError = None, selectedApproximator = None, approximatorPriority = None,
      alternatives = None\<rparr>"

text \<open>The diagnostics of the winning result after the three assignments made to them.\<close>

definition annotate :: "attempt \<Rightarrow> approximation \<Rightarrow> attemptDiagnostic list \<Rightarrow> diagnostics" where
  "annotate best approximation alts =
     (case ap_diagnostics approximation of None \<Rightarrow> emptyDiagnostics | Some d \<Rightarrow> d)
       \<lparr>selectedApproximator := Some (at_label best),
        approximatorPriority := Some (at_priority best),
        alternatives := Some alts\<rparr>"

definition knotPointsOf :: "approximation \<Rightarrow> real list list" where
  "knotPointsOf approximation =
     (case ap_knots approximation of
        None \<Rightarrow> []
      | Some ks \<Rightarrow> map (\<lambda>knot. [knot ! 0, knot ! 1]) (filter (\<lambda>knot. 2 \<le> length knot) ks))"

text \<open>
  \<^verbatim>\<open>addHandDrawnCurve\<close>. The results of the six strategies on the stroke and the
  resolved \<^verbatim>\<open>this.approximatorSettings.maxKnots\<close> are parameters. The graph calculator
  returns a curve under the id it is asked for, and a point for every knot; calling it
  while none is attached throws, which the advanced-mode branch catches. The path data
  that the calculator derives from the points of an advanced-mode stroke stands as the
  empty string.
\<close>

definition addHandDrawnCurve ::
  "(string \<Rightarrow> string \<Rightarrow> int) \<Rightarrow> strategyResults \<Rightarrow> int option \<Rightarrow> handDrawnDescriptor option
     \<Rightarrow> manager \<Rightarrow> addResult outcome \<times> manager" where
  "addHandDrawnCurve localeCompare rs maxKnots descriptor s =
     (case descriptor of
        None \<Rightarrow>
          (Returned \<lparr>r_success = False, r_message = DescriptorRequired, r_curve = None,
                     r_diagnostics = None\<rparr>, s)
      | Some d \<Rightarrow>
          let cid = hd_id d;
              s1 = (if slot (curves s) cid = None
                    then s\<lparr>curves := addCurveToList cid
                                        (assignSlot (curves s) cid (Some (placeholder d)))\<rparr>
                    else s)
          in (case bestAttempt localeCompare rs of
               Some best \<Rightarrow>
                 (case at_approximation best of
                    None \<Rightarrow> (Threw, s1)
                  | Some approximation \<Rightarrow>
                      if \<not> graphCalculator s1 then (Threw, s1)
                      else
                        let diag = annotate best approximation (attemptDiagnostics rs);
                            s2 = addCurve
                                   \<lparr>d_id = cid,
                                    d_type = ap_type approximation,
                                    d_path = Some (ap_svgPath approximation),
                                    d_color = hd_color d,
                                    d_size = hd_size d,
                                    d_locked = None,
                                    d_graphCurve = Some cid,
                                    d_latexEquations = Some (ap_latexEquations approximation),
                                    d_preKnots = Some (case ap_preKnots approximation of
                                                         None \<Rightarrow> [] | Some ks \<Rightarrow> ks),
                                    d_originalPoints = Some (hd_domainPath d),
                                    d_minKnots = Some 2,
                                    d_maxKnots = maxKnots,
                                    d_approximationType = ap_type approximation,
                                    d_approximationData = ap_exportData approximation,
                                    d_approximationDiagnostics = Some diag,
                                    d_selectedApproximator = Some (at_label best),
                                    d_approximatorPriority = Some (at_priority best)\<rparr> s1;
                            s3 = (case slot (curves s2) cid of
                                    None \<Rightarrow> s2
                                  | Some curve \<Rightarrow>
                                      s2\<lparr>curves := (curves s2)[cid := Some (curve
                                          \<lparr>cv_knotPoints := Some (knotPointsOf approximation),
                                           cv_originalPoints := Some (hd_domainPath d),
                                           cv_selectedApproximator := Some (at_label best),
                                           cv_approximatorPriority := Some (at_priority best),
                                           cv_approximationDiagnostics := Some diag,
                                           cv_approximationType := ap_type approximation,
                                           cv_approximationData := ap_exportData approximation\<rparr>)]\<rparr>)
                        in (Returned
                              \<lparr>r_success = True,
                               r_message = ApproximatedAs
                                 (case orString (ap_type approximation) None of
                                    None \<Rightarrow> at_label best | Some t \<Rightarrow> t),
                               r_curve = Some cid,
                               r_diagnostics = Some diag\<rparr>, s3))
             | None \<Rightarrow>
                 if hd_useAdvancedMode d then
                   (if \<not> graphCalculator s1
                    then (Returned \<lparr>r_success = False, r_message = AdvancedModeFailed,
                                     r_curve = None, r_diagnostics = None\<rparr>, s1)
                    else
                      (Returned \<lparr>r_success = True, r_message = AdvancedModeAdded,
                                  r_curve = Some cid, r_diagnostics = None\<rparr>,
                       addCurve
                         \<lparr>d_id = cid,
                          d_type = Some ''parametric'',
                          d_path = Some [],
                          d_color = hd_color d,
                          d_size = hd_size d,
                          d_locked = None,
                          d_graphCurve = Some cid,
                          d_latexEquations = Some [],
                          d_preKnots = None,
                          d_originalPoints = Some (hd_domainPath d),
                          d_minKnots = None,
                          d_maxKnots = None,
                          d_approximationType = None,
                          d_approximationData = None,
                          d_approximationDiagnostics = None,
                          d_selectedApproximator = None,
                          d_approximatorPriority = None\<rparr> s1))
                 else
                   (Returned
                      \<lparr>r_success = False, r_message = ApproximationFailed, r_curve = None,
                       r_diagnostics = Some (emptyDiagnostics
                         \<lparr>alternatives := Some (attemptDiagnostics rs)\<rparr>)\<rparr>,
                    case slot (curves s1) cid of
                      None \<Rightarrow> s1
                    | Some c \<Rightarrow>
                        if cv_graphCurve c = None \<or> cv_type c = Some ''unknown''
                        then s1\<lparr>curves := (curves s1)[cid := None]\<rparr>
                        else s1)))"

subsection \<open>Deleting, clearing and reordering\<close>

definition deleteCurve :: "int \<Rightarrow> manager \<Rightarrow> unit outcome \<times> manager" where
  "deleteCurve cid s =
     (case lookup (curves s) cid of
        None \<Rightarrow> (Returned (), s)
      | Some c \<Rightarrow>
          let s1 = addAction (ActDelete c cid (nextCurveId s)) s
          in (case cv_path c of
                None \<Rightarrow> (Threw, s1)
              | Some p \<Rightarrow>
                  let cs = updateCurveList (renumber (spliceDelete (curves s1) cid));
                      s2 = s1\<lparr>curves := cs, nextCurveId := length cs\<rparr>
                  in if drawable cs then (Returned (), s2\<lparr>selectCurveId := None\<rparr>)
                     else (Threw, s2)))"

definition clearCanvas :: "manager \<Rightarrow> manager" where
  "clearCanvas s = (addAction (ActClear (curves s)) s)\<lparr>curves := [], nextCurveId := 0\<rparr>"

definition reorderCurves :: "int \<Rightarrow> int \<Rightarrow> manager \<Rightarrow> unit outcome \<times> manager" where
  "reorderCurves fromId toId s =
     (let curve = lookup (curves s) fromId;
          cs = updateCurveList
                 (renumber (spliceInsert (spliceDelete (curves s) fromId) toId curve));
          s1 = s\<lparr>curves := cs\<rparr>
      in if drawable cs then (Returned (), addAction (ActReorder fromId toId) s1)
         else (Threw, s1))"

subsection \<open>Visibility, detail and style\<close>

definition setCurveVisibility :: "int \<Rightarrow> bool \<Rightarrow> manager \<Rightarrow> manager" where
  "setCurveVisibility cid visible s =
     (case lookup (curves s) cid of
        None \<Rightarrow> s
      | Some curve \<Rightarrow> s\<lparr>curves := (curves s)[nat cid := Some (curve\<lparr>cv_isHidden := \<not> visible\<rparr>)]\<rparr>)"

definition toggleCurveVisibility :: "int \<Rightarrow> manager \<Rightarrow> manager" where
  "toggleCurveVisibility curveId s =
     (case lookup (curves s) curveId of
        None \<Rightarrow> s
      | Some curve \<Rightarrow>
          let isHidden = cv_isHidden curve;
              newHiddenState = \<not> isHidden
          in setCurveVisibility curveId (\<not> newHiddenState)
               (addAction (ActToggleVisibility curveId isHidden newHiddenState) s))"

definition setCurveDetailState :: "int \<Rightarrow> bool \<Rightarrow> manager \<Rightarrow> manager" where
  "setCurveDetailState cid detailShown s =
     (if 0 \<le> cid \<and> cid < int (length (curves s)) then
        (case lookup (curves s) cid of
           None \<Rightarrow> s
         | Some curve \<Rightarrow>
             s\<lparr>curves := (curves s)[nat cid := Some (curve\<lparr>cv_isDetailShown := detailShown\<rparr>)]\<rparr>)
      else s)"

definition toggleDetailVisibility :: "int \<Rightarrow> manager \<Rightarrow> manager" where
  "toggleDetailVisibility cid s =
     (case lookup (curves s) cid of
        None \<Rightarrow> s
      | Some curve \<Rightarrow>
          let isDetailShown = cv_isDetailShown curve;
              newDetailState = \<not> isDetailShown
          in setCurveDetailState cid newDetailState
               (addAction (ActToggleDetails cid isDetailShown newDetailState) s))"

definition recordStyleChange ::
  "string option \<Rightarrow> real option \<Rightarrow> manager \<Rightarrow> unit outcome \<times> manager" where
  "recordStyleChange newColor newSize s =
     (case selectCurveId s of
        None \<Rightarrow> (Returned (), s)
      | Some cid \<Rightarrow>
          (case lookup (curves s) cid of
             None \<Rightarrow> (Returned (), s)
           | Some curve \<Rightarrow>
               let oldColor = cv_color curve; oldSize = cv_size curve
               in if oldColor = newColor \<and> oldSize = newSize then (Returned (), s)
                  else
                    let s1 = addAction (ActStyleChange cid oldColor oldSize newColor newSize) s
                    in if cv_path curve = None then (Threw, s1)
                       else (Returned (),
                             s1\<lparr>curves := (curves s1)[nat cid := Some (curve
                                  \<lparr>cv_color := newColor, cv_size := newSize\<rparr>)]\<rparr>)))"

subsection \<open>Changing the knot count\<close>

text \<open>
  \<^verbatim>\<open>setKnotCount\<close>. The strategy \<^verbatim>\<open>quadraticApproximator.approximateWithCustomKnots\<close>,
  with the domain of the graph calculator already supplied, is the parameter \<open>fit\<close>;
  each call of it is logged with its arguments in \<open>fitCalls\<close>. Of the comparator
  \<^verbatim>\<open>a.knot - b.knot\<close> the sort reads the sign alone, and the rounded difference of two
  doubles has the sign of the exact one, which stands here.
\<close>

definition customKnots :: "curve \<Rightarrow> int \<Rightarrow> preKnot list" where
  "customKnots curve knotCount =
     js_sort (\<lambda>a b. Fin (pk_knot a - pk_knot b))
       (filter (\<lambda>k. pk_priority k < knotCount - 2) (cv_preKnots curve))"

type_synonym fitCall = "point list \<times> preKnot list"

definition setKnotCount ::
  "(point list \<Rightarrow> preKnot list \<Rightarrow> approximation) \<Rightarrow> int \<Rightarrow> int \<Rightarrow> manager \<times> fitCall list
     \<Rightarrow> unit outcome \<times> manager \<times> fitCall list" where
  "setKnotCount fit curveId knotCount st =
     (let s = fst st; fitCalls = snd st
      in case lookup (curves s) curveId of
           None \<Rightarrow> (Returned (), st)
         | Some curve \<Rightarrow>
             (case cv_originalPoints curve of
                None \<Rightarrow> (Returned (), st)
              | Some originalPoints \<Rightarrow>
                  if \<not> graphCalculator s then (Returned (), st)
                  else
                    let result = fit originalPoints (customKnots curve knotCount);
                        calls = fitCalls @ [(originalPoints, customKnots curve knotCount)]
                    in if \<not> ap_success result then (Returned (), s, calls)
                       else
                         (case cv_graphCurve curve of
                            None \<Rightarrow> (Returned (), s, calls)
                          | Some g \<Rightarrow>
                              (case ap_knots result of
                                 None \<Rightarrow> (Threw, s, calls)
                               | Some knots \<Rightarrow>
                                   (Returned (),
                                    s\<lparr>curves := (curves s)[nat curveId := Some (curve
                                        \<lparr>cv_latexEquations := ap_latexEquations result,
                                         cv_knotPoints := Some knots,
                                         cv_knotCount := knotCount\<rparr>)]\<rparr>,
                                    calls)))))"

text \<open>
  The \<^verbatim>\<open>change\<close> listener of the knot-count slider built by
  \<^verbatim>\<open>createKnotCountSlider\<close>; \<open>oldValueForHistory\<close> is the value it remembered.
\<close>

definition knotSliderChange ::
  "(point list \<Rightarrow> preKnot list \<Rightarrow> approximation) \<Rightarrow> int \<Rightarrow> int \<Rightarrow> int \<Rightarrow> manager \<times> fitCall list
     \<Rightarrow> unit outcome \<times> manager \<times> fitCall list" where
  "knotSliderChange fit curveId oldValueForHistory newValue st =
     setKnotCount fit curveId newValue
       (if oldValueForHistory \<noteq> newValue
        then (addAction (ActKnotCountChanged curveId oldValueForHistory newValue) (fst st), snd st)
        else st)"

section \<open>Sequences of store operations\<close>

datatype operation =
    OpAddCurve curveDescriptor
  | OpAddHandDrawnCurve strategyResults "int option" "handDrawnDescriptor option"
  | OpDeleteCurve int
  | OpReorderCurves int int

text \<open>
  The operations run one after another, as the handlers of successive events do. An
  operation that throws leaves the manager as it stood at the throw, and the next
  operation starts from there.
\<close>

fun perform :: "(string \<Rightarrow> string \<Rightarrow> int) \<Rightarrow> operation \<Rightarrow> manager \<Rightarrow> manager" where
  "perform lc (OpAddCurve d) s = addCurve d s"
| "perform lc (OpAddHandDrawnCurve rs maxKnots d) s = snd (addHandDrawnCurve lc rs maxKnots d s)"
| "perform lc (OpDeleteCurve cid) s = snd (deleteCurve cid s)"
| "perform lc (OpReorderCurves fromId toId) s = snd (reorderCurves fromId toId s)"

fun run :: "(string \<Rightarrow> string \<Rightarrow> int) \<Rightarrow> operation list \<Rightarrow> manager \<Rightarrow> manager" where
  "run lc [] s = s"
| "run lc (op # ops) s = run lc ops (perform lc op s)"

text \<open>The identity invariant: every non-empty slot holds a curve whose id is its index.\<close>

definition identityInvariant :: "store \<Rightarrow> bool" where
  "identityInvariant cs =
     list_all (\<lambda>(i, s). case s of None \<Rightarrow> True | Some c \<Rightarrow> cv_id c = i) (zip [0..<length cs] cs)"

text \<open>
  A descriptor handed to \<^verbatim>\<open>addCurve\<close> names a slot that holds a curve or placeholder,
  or the next index of the array.
\<close>

definition namesSlot :: "curveDescriptor \<Rightarrow> manager \<Rightarrow> bool" where
  "namesSlot d s = (slot (curves s) (d_id d) \<noteq> None \<or> d_id d = length (curves s))"

fun wellAddressed :: "(string \<Rightarrow> string \<Rightarrow> int) \<Rightarrow> operation list \<Rightarrow> manager \<Rightarrow> bool" where
  "wellAddressed lc [] s = True"
| "wellAddressed lc (OpAddCurve d # ops) s =
     (namesSlot d s \<and> wellAddressed lc ops (perform lc (OpAddCurve d) s))"
| "wellAddressed lc (op # ops) s = wellAddressed lc ops (perform lc op s)"

section \<open>The error score as the specification words it\<close>

text \<open>
  The fallback chain read from the specification alone: the absolute value of a finite
  \<^verbatim>\<open>rmsError\<close>, else one minus a present \<^verbatim>\<open>averageLinearity\<close> floored at zero, else
  the mean of the finite per-segment \<^verbatim>\<open>rmsError\<close> values, else positive infinity. The
  mean is taken in the arithmetic of the language, as a sum divided by the count.
\<close>

definition finiteSegmentValues :: "segment option list \<Rightarrow> real list" where
  "finiteSegmentValues segs =
     concat (map (\<lambda>seg. case Option.bind seg seg_rmsError of Some (Fin r) \<Rightarrow> [r] | _ \<Rightarrow> []) segs)"

definition specifiedErrorScore :: "approximation option \<Rightarrow> jsnum" where
  "specifiedErrorScore approximation =
     (case Option.bind (Option.bind approximation ap_diagnostics) rmsError of
        Some (Fin r) \<Rightarrow> Fin \<bar>r\<bar>
      | _ \<Rightarrow>
         (case Option.bind approximation ap_averageLinearity of
            Some l \<Rightarrow> Math_max0 (js_minus (Fin 1) l)
          | None \<Rightarrow>
             (case Option.bind approximation ap_segments of
                None \<Rightarrow> PosInf
              | Some segs \<Rightarrow>
                  if finiteSegmentValues segs \<noteq> []
                  then js_divide
                         (foldl js_plus (Fin 0) (map Fin (finiteSegmentValues segs)))
                         (Fin (real (length (finiteSegmentValues segs))))
                  else PosInf)))"

section \<open>Example inputs\<close>

definition noResult :: approximation where
  "noResult =
     \<lparr>ap_success = False, ap_type = None, ap_diagnostics = None, ap_averageLinearity = None,
      ap_segments = None, ap_svgPath = [], ap_latexEquations = [], ap_knots = None,
      ap_preKnots = None, ap_exportData = None\<rparr>"

definition failedWithError :: approximation where
  "failedWithError =
     noResult\<lparr>ap_diagnostics := Some (emptyDiagnostics\<lparr>rmsError := Some (Fin (1 / 2))\<rparr>)\<rparr>"

definition negativeSegment :: approximation where
  "negativeSegment =
     noResult\<lparr>ap_success := True,
              ap_segments := Some [Some \<lparr>seg_rmsError = Some (Fin (- 1))\<rparr>, None]\<rparr>"

definition twoSegments :: approximation where
  "twoSegments =
     noResult\<lparr>ap_success := True,
              ap_segments := Some [Some \<lparr>seg_rmsError = Some (Fin 1)\<rparr>,
                                   Some \<lparr>seg_rmsError = Some PosInf\<rparr>,
                                   Some \<lparr>seg_rmsError = Some (Fin (- 3))\<rparr>]\<rparr>"

text \<open>\<^verbatim>\<open>Number.MAX_VALUE\<close>, and the doubles written \<^verbatim>\<open>0.1\<close> and \<^verbatim>\<open>0.2\<close>.\<close>

definition maxValue :: real where
  "maxValue = (2 ^ 53 - 1) * 2 ^ 971"

definition double_0_1 :: real where
  "double_0_1 = 3602879701896397 / 2 ^ 55"

definition double_0_2 :: real where
  "double_0_2 = 3602879701896397 / 2 ^ 54"

text \<open>The double \<^verbatim>\<open>0.30000000000000004\<close>, which is what \<^verbatim>\<open>0.1 + 0.2\<close> evaluates to.\<close>

definition double_0_30000000000000004 :: real where
  "double_0_30000000000000004 = 5404319552844596 / 2 ^ 54"

definition hugeSegments :: approximation where
  "hugeSegments =
     noResult\<lparr>ap_success := True,
              ap_segments := Some [Some \<lparr>seg_rmsError = Some (Fin maxValue)\<rparr>,
                                   Some \<lparr>seg_rmsError = Some (Fin maxValue)\<rparr>]\<rparr>"

definition tenthAndFifth :: approximation where
  "tenthAndFifth =
     noResult\<lparr>ap_success := True,
              ap_segments :=
                Some [Some \<lparr>seg_rmsError = Some (Fin double_0_1)\<rparr>,
                      Some \<lparr>seg_rmsError = Some (Fin double_0_2)\<rparr>]\<rparr>"

definition roughLine :: approximation where
  "roughLine =
     noResult\<lparr>ap_success := True, ap_type := Some ''linear'', ap_svgPath := ''M 0 0 L 4 4'',
              ap_diagnostics := Some (emptyDiagnostics\<lparr>rmsError := Some (Fin 2)\<rparr>)\<rparr>"

definition closeSpline :: approximation where
  "closeSpline =
     noResult\<lparr>ap_success := True, ap_type := Some ''quadratic'',
              ap_svgPath := ''M 0 0 Q 2 3 4 4'',
              ap_diagnostics := Some (emptyDiagnostics\<lparr>rmsError := Some (Fin (1 / 4))\<rparr>)\<rparr>"

definition lineAndSpline :: strategyResults where
  "lineAndSpline =
     \<lparr>piecewiseResult = Some noResult, linearResult = Some roughLine,
      singleQuadraticResult = None, singleCircleResult = None,
      quadraticBSplineResult = Some closeSpline, selectiveResult = None\<rparr>"

definition noFit :: strategyResults where
  "noFit =
     \<lparr>piecewiseResult = Some failedWithError, linearResult = Some noResult,
      singleQuadraticResult = None, singleCircleResult = None,
      quadraticBSplineResult = Some noResult, selectiveResult = None\<rparr>"

definition emptyManager :: manager where
  "emptyManager =
     \<lparr>curves = [], nextCurveId = 0, selectCurveId = None, graphCalculator = True, history = []\<rparr>"

definition lineDescriptor :: "nat \<Rightarrow> curveDescriptor" where
  "lineDescriptor n =
     \<lparr>d_id = n, d_type = Some ''linear'', d_path = Some ''M 0 0 L 1 1'', d_color = Some ''#f00'',
      d_size = Some 4, d_locked = None, d_graphCurve = Some n,
      d_latexEquations = Some [''y=x''],
      d_preKnots = Some [\<lparr>pk_knot = 7 / 10, pk_priority = 1\<rparr>,
                         \<lparr>pk_knot = 1 / 5, pk_priority = 0\<rparr>,
                         \<lparr>pk_knot = 1 / 2, pk_priority = 2\<rparr>],
      d_originalPoints = Some [(0, 0), (1, 1)], d_minKnots = None, d_maxKnots = None,
      d_approximationType = None, d_approximationData = None,
      d_approximationDiagnostics = None, d_selectedApproximator = None,
      d_approximatorPriority = None\<rparr>"

definition twoCurves :: manager where
  "twoCurves =
     emptyManager\<lparr>curves := [Some (newCurve (lineDescriptor 0)), Some (newCurve (lineDescriptor 1))],
                  nextCurveId := 2\<rparr>"

definition fiveCurves :: manager where
  "fiveCurves =
     emptyManager\<lparr>curves := map (\<lambda>n. Some (newCurve (lineDescriptor n))) [0, 1, 2, 3, 4],
                  nextCurveId := 5\<rparr>"

definition splineDescriptor :: "nat \<Rightarrow> curveDescriptor" where
  "splineDescriptor n = (lineDescriptor n)\<lparr>d_type := Some ''quadratic''\<rparr>"

definition lineAndQuadratic :: manager where
  "lineAndQuadratic =
     emptyManager\<lparr>curves := [Some (newCurve (lineDescriptor 0)),
                              Some (newCurve (splineDescriptor 1))],
                  nextCurveId := 2\<rparr>"

definition stroke :: "nat \<Rightarrow> handDrawnDescriptor" where
  "stroke n =
     \<lparr>hd_id = n, hd_domainPath = [(0, 0), (4, 4)], hd_color = Some ''#00f'', hd_size = Some 2,
      hd_useAdvancedMode = False,
      hd_approximatorSettings =
        \<lparr>as_color = None, as_size = None, as_showKnotsDefault = None\<rparr>\<rparr>"

definition strandedPlaceholder :: manager where
  "strandedPlaceholder =
     snd (addHandDrawnCurve codeUnitCompare lineAndSpline None (Some (stroke 0))
            (emptyManager\<lparr>graphCalculator := False\<rparr>))"

definition selected :: manager where
  "selected = twoCurves\<lparr>selectCurveId := Some 0\<rparr>"

definition refit :: "point list \<Rightarrow> preKnot list \<Rightarrow> approximation" where
  "refit originalPoints ks =
     closeSpline\<lparr>ap_latexEquations := [''y=x^2''], ap_knots := Some [[0, 0], [1, 1]]\<rparr>"

definition failingFit :: "point list \<Rightarrow> preKnot list \<Rightarrow> approximation" where
  "failingFit originalPoints ks = noResult"

section \<open>Sorting by comparator and sorting by key\<close>

lemma insert_cmp_insort_key:
  "\<forall>y\<in>set ys. js_positive (cmp x y) = (f y < f x) \<Longrightarrow> insert_cmp cmp x ys = insort_key f x ys"
  by (induction ys) (auto simp: not_less)

lemma js_sort_sort_key:
  assumes "\<And>x y. x \<in> set xs \<Longrightarrow> y \<in> set xs \<Longrightarrow> js_positive (cmp x y) = (f y < f x)"
  shows "js_sort cmp xs = sort_key f xs"
  using assms unfolding js_sort_def sort_key_def
proof (induction xs)
  case Nil
  then show ?case by simp
next
  case (Cons x xs)
  have "foldr (insert_cmp cmp) xs [] = foldr (insort_key f) xs []"
    using Cons by simp
  moreover have "set (foldr (insort_key f) xs []) = set xs"
    using set_sort[of f xs] by (simp add: sort_key_def)
  ultimately show ?case
    using Cons.prems by (simp add: insert_cmp_insort_key)
qed

text \<open>No element is compared with itself, so on a duplicate-free array the comparator
  only has to agree with the key order on different elements.\<close>

lemma js_sort_sort_key_distinct:
  assumes "\<And>x y. x \<in> set xs \<Longrightarrow> y \<in> set xs \<Longrightarrow> x \<noteq> y \<Longrightarrow> js_positive (cmp x y) = (f y < f x)"
    and "distinct xs"
  shows "js_sort cmp xs = sort_key f xs"
  using assms unfolding js_sort_def sort_key_def
proof (induction xs)
  case Nil
  then show ?case by simp
next
  case (Cons x xs)
  have "foldr (insert_cmp cmp) xs [] = foldr (insort_key f) xs []"
    using Cons by simp
  moreover have "set (foldr (insort_key f) xs []) = set xs"
    using set_sort[of f xs] by (simp add: sort_key_def)
  moreover have "\<forall>y\<in>set xs. js_positive (cmp x y) = (f y < f x)"
    using Cons.prems by auto
  ultimately show ?case
    by (simp add: insert_cmp_insort_key)
qed

lemma hd_sort_key_least:
  assumes "xs \<noteq> []" "b \<in> set xs"
  shows "f (hd (sort_key f xs)) \<le> f b"
proof -
  have "sort_key f xs \<noteq> []"
    using assms(1) by (metis length_sort length_0_conv)
  then obtain w ws where eq: "sort_key f xs = w # ws"
    by (cases "sort_key f xs") auto
  have "sorted (map f (w # ws))"
    using sorted_sort_key[of f xs] eq by simp
  moreover have "b \<in> set (w # ws)"
    using assms(2) set_sort[of f xs] eq by simp
  ultimately show ?thesis
    using eq by auto
qed

section \<open>The selection of the winning attempt\<close>

text \<open>Whatever the collation of labels, attempts of different priority are ordered by
  priority, and the attempts of one stroke have pairwise different priorities.\<close>

lemma compareAttempts_priority:
  "at_priority a \<noteq> at_priority b \<Longrightarrow>
   js_positive (compareAttempts lc a b) = (rankKey b < rankKey a)"
  by (auto simp: compareAttempts_def rankKey_def)

lemma distinct_priorities: "distinct (map at_priority (successfulAttempts rs))"
  by (simp add: successfulAttempts_def attempts_def registerAttempt_def linearPriority_def)

lemma ranking_realised:
  "js_sort (compareAttempts lc) (successfulAttempts rs) = sort_key rankKey (successfulAttempts rs)"
proof (rule js_sort_sort_key_distinct)
  have d: "distinct (map at_priority (successfulAttempts rs))"
    by (rule distinct_priorities)
  then show "distinct (successfulAttempts rs)"
    by (simp add: distinct_map)
  fix x y
  assume "x \<in> set (successfulAttempts rs)" "y \<in> set (successfulAttempts rs)" "x \<noteq> y"
  with d have "at_priority x \<noteq> at_priority y"
    by (auto simp: distinct_map dest: inj_onD)
  then show "js_positive (compareAttempts lc x y) = (rankKey y < rankKey x)"
    by (rule compareAttempts_priority)
qed

text \<open>
  Claim C1. When at least one attempt of the stroke succeeded, the winner chosen by
  \<^verbatim>\<open>addHandDrawnCurve\<close> is the first of the successful attempts sorted by priority,
  then error score with non-finite scores last, then label. It is least in that order
  among the successful attempts, and no attempt is chosen while a successful attempt of
  strictly lower priority exists, whatever the error scores are. This holds for every
  collation \<open>lc\<close> that \<^verbatim>\<open>localeCompare\<close> may implement.
\<close>

theorem bestAttempt_first_of_ranking:
  assumes "\<exists>a \<in> set (attempts rs). succeeded (at_approximation a)"
  shows "\<exists>w. bestAttempt lc rs = Some w
           \<and> w = hd (sort_key rankKey (successfulAttempts rs))
           \<and> w \<in> set (successfulAttempts rs)
           \<and> (\<forall>b \<in> set (successfulAttempts rs). rankKey w \<le> rankKey b)
           \<and> (\<forall>a \<in> set (successfulAttempts rs). \<forall>b \<in> set (attempts rs).
                 at_priority a < at_priority b \<longrightarrow> w \<noteq> b)"
proof -
  let ?succ = "successfulAttempts rs"
  let ?w = "hd (sort_key rankKey ?succ)"
  have ne: "?succ \<noteq> []"
    using assms by (auto simp: successfulAttempts_def filter_empty_conv)
  have sne: "sort_key rankKey ?succ \<noteq> []"
    using ne by (metis length_sort length_0_conv)
  have best: "bestAttempt lc rs = Some ?w"
    using sne by (cases "sort_key rankKey ?succ") (simp_all add: bestAttempt_def ranking_realised)
  have mem: "?w \<in> set ?succ"
    using sne hd_in_set[OF sne] set_sort[of rankKey ?succ] by simp
  have least: "\<forall>b \<in> set ?succ. rankKey ?w \<le> rankKey b"
    using hd_sort_key_least[OF ne] by blast
  have dom: "\<forall>a \<in> set ?succ. \<forall>b \<in> set (attempts rs). at_priority a < at_priority b \<longrightarrow> ?w \<noteq> b"
  proof (intro ballI impI)
    fix a b
    assume a: "a \<in> set ?succ" and b: "b \<in> set (attempts rs)"
      and lt: "at_priority a < at_priority b"
    from least a have "rankKey ?w \<le> rankKey a" by blast
    then have "at_priority ?w \<le> at_priority a"
      by (auto simp: rankKey_def)
    with lt show "?w \<noteq> b" by auto
  qed
  from best mem least dom show ?thesis by blast
qed

text \<open>
  A stroke on which the line fits with error 2 and the spline with error 1/4: the line,
  of priority 2, wins over the spline, of priority 5.
\<close>

lemma lineAndSpline_successful:
  "successfulAttempts lineAndSpline =
     [registerAttempt ''linear'' (Some roughLine) 2,
      registerAttempt ''quadraticBSpline'' (Some closeSpline) 5]"
  by (simp add: successfulAttempts_def attempts_def lineAndSpline_def registerAttempt_def
        succeeded_def roughLine_def closeSpline_def noResult_def linearPriority_def
        linearLabel_def)

lemma bestAttempt_lineAndSpline:
  "bestAttempt lc lineAndSpline = Some (registerAttempt ''linear'' (Some roughLine) 2)"
proof -
  have "sort_key rankKey (successfulAttempts lineAndSpline)
        = [registerAttempt ''linear'' (Some roughLine) 2,
           registerAttempt ''quadraticBSpline'' (Some closeSpline) 5]"
    by (simp add: lineAndSpline_successful rankKey_def registerAttempt_def)
  then show ?thesis
    by (simp add: bestAttempt_def ranking_realised)
qed

theorem bestAttempt_first_of_ranking_witness:
  "(\<exists>a \<in> set (attempts lineAndSpline). succeeded (at_approximation a))
   \<and> bestAttempt codeUnitCompare lineAndSpline = Some (registerAttempt ''linear'' (Some roughLine) 2)"
proof -
  have h: "\<exists>a \<in> set (attempts lineAndSpline). succeeded (at_approximation a)"
    by (simp add: attempts_def lineAndSpline_def registerAttempt_def succeeded_def
          roughLine_def noResult_def)
  have "sort_key rankKey (successfulAttempts lineAndSpline)
        = [registerAttempt ''linear'' (Some roughLine) 2,
           registerAttempt ''quadraticBSpline'' (Some closeSpline) 5]"
    by (simp add: lineAndSpline_successful rankKey_def registerAttempt_def)
  with bestAttempt_first_of_ranking[OF h, of codeUnitCompare] h show ?thesis
    by auto
qed

section \<open>Rounding to the nearest double\<close>

lemma pow2_powr: "pow2 k = 2 powr (of_int k)"
proof (cases "0 \<le> k")
  case True
  then have "2 powr (of_int k) = (2::real) ^ nat k"
    by (metis of_int_of_nat_eq nat_0_le powr_realpow zero_less_numeral of_nat_nat)
  with True show ?thesis by (simp add: pow2_def)
next
  case False
  then have "2 powr (of_int (- k)) = (2::real) ^ nat (- k)"
    by (metis of_int_of_nat_eq nat_0_le powr_realpow zero_less_numeral of_nat_nat
        neg_0_le_iff_le linorder_le_cases)
  then have "2 powr (of_int k) = 1 / (2::real) ^ nat (- k)"
    by (metis inverse_eq_divide inverse_inverse_eq of_int_minus powr_minus)
  with False show ?thesis by (simp add: pow2_def)
qed

lemma exponent_in_binade:
  assumes "pow2 e \<le> \<bar>x\<bar>" "\<bar>x\<bar> < pow2 (e + 1)" "- 1022 \<le> e"
  shows "exponent x = e"
proof -
  have pos: "0 < \<bar>x\<bar>"
    using assms(1) by (smt (verit) pow2_powr powr_gt_zero)
  have "of_int e \<le> log 2 \<bar>x\<bar>"
    using assms(1) pos by (simp add: pow2_powr le_log_iff)
  moreover have "log 2 \<bar>x\<bar> < of_int e + 1"
    using assms(2) pos by (simp add: pow2_powr log_less_iff)
  ultimately have "\<lfloor>log 2 \<bar>x\<bar>\<rfloor> = e"
    by (simp add: floor_eq_iff)
  with assms(3) show ?thesis
    by (simp add: exponent_def)
qed

text \<open>The value of \<open>fl\<close> on a number whose binade is known.\<close>

lemma fl_in_binade:
  assumes "pow2 e \<le> \<bar>x\<bar>" "\<bar>x\<bar> < pow2 (e + 1)" "- 1022 \<le> e" "\<bar>x\<bar> < 2 ^ 1024 - 2 ^ 970"
  shows "fl x = Fin (sgn x * of_int (roundToEven (\<bar>x\<bar> / pow2 (e - 52))) * pow2 (e - 52))"
proof -
  have "x \<noteq> 0"
    using assms(1) by (smt (verit) pow2_powr powr_gt_zero)
  then show ?thesis
    using assms(4) by (simp add: fl_def exponent_in_binade[OF assms(1-3)])
qed

lemma fl_small_integers:
  "fl 1 = Fin 1" "fl (- 1) = Fin (- 1)" "fl 2 = Fin 2" "fl 4 = Fin 4"
  using fl_in_binade[of 0 1] fl_in_binade[of 0 "- 1"] fl_in_binade[of 1 2] fl_in_binade[of 2 4]
  by (simp_all add: pow2_def roundToEven_def)

text \<open>The double \<^verbatim>\<open>0.1\<close>, the sum \<^verbatim>\<open>0.1 + 0.2\<close> (a tie, rounded up to the even
  significand) and its half \<^verbatim>\<open>0.15000000000000002\<close>.\<close>

lemma abs_doubles:
  "\<bar>double_0_1\<bar> = double_0_1" "\<bar>double_0_2\<bar> = double_0_2" "\<bar>maxValue\<bar> = maxValue"
  by (simp_all add: double_0_1_def double_0_2_def maxValue_def)

lemma fl_tenth: "fl double_0_1 = Fin double_0_1"
  using fl_in_binade[of "- 4" double_0_1]
  by (simp add: double_0_1_def pow2_def roundToEven_def)

lemma fl_tenth_plus_fifth: "fl (double_0_1 + double_0_2) = Fin double_0_30000000000000004"
  using fl_in_binade[of "- 2" "double_0_1 + double_0_2"]
  by (simp add: double_0_1_def double_0_2_def double_0_30000000000000004_def pow2_def
      roundToEven_def)

lemma fl_half_of_sum:
  "fl (double_0_30000000000000004 / 2) = Fin (double_0_30000000000000004 / 2)"
  using fl_in_binade[of "- 3" "double_0_30000000000000004 / 2"]
  by (simp add: double_0_30000000000000004_def pow2_def roundToEven_def)

text \<open>The largest double is a double, and twice it overflows.\<close>

lemma fl_maxValue: "fl maxValue = Fin maxValue"
  using fl_in_binade[of 1023 maxValue]
  by (simp add: maxValue_def pow2_def roundToEven_def)

lemma fl_twice_maxValue: "fl (maxValue + maxValue) = PosInf" "fl (2 * maxValue) = PosInf"
  by (simp_all add: fl_def maxValue_def)

section \<open>The error score\<close>

lemma segmentErrors_abs: "segmentErrors segs = map abs (finiteSegmentValues segs)"
proof (induction segs)
  case Nil
  then show ?case by (simp add: segmentErrors_def finiteSegmentValues_def)
next
  case (Cons seg segs)
  have "(case segmentError seg of Some (Fin r) \<Rightarrow> [r] | _ \<Rightarrow> [])
        = map abs (case Option.bind seg seg_rmsError of Some (Fin r) \<Rightarrow> [r] | _ \<Rightarrow> [])"
  proof (cases seg)
    case None
    then show ?thesis by simp
  next
    case (Some sg)
    then show ?thesis
      by (cases "seg_rmsError sg") (auto split: jsnum.splits)
  qed
  with Cons show ?case
    by (simp add: segmentErrors_def finiteSegmentValues_def)
qed

text \<open>
  Claim C2, as stated, fails. An attempt that did not succeed scores positive infinity
  even when its \<^verbatim>\<open>rmsError\<close> is finite, and the segment mean is taken over absolute
  values: a failed attempt with \<^verbatim>\<open>rmsError\<close> 1/2 scores infinity where the stated chain
  gives 1/2, and a successful attempt with the one finite segment error -1 scores 1
  where the stated chain gives -1.
\<close>

theorem errorScore_chain_counterexample:
  "getErrorScore (Some failedWithError) = PosInf
   \<and> specifiedErrorScore (Some failedWithError) = Fin (1 / 2)
   \<and> getErrorScore (Some negativeSegment) = Fin 1
   \<and> specifiedErrorScore (Some negativeSegment) = Fin (- 1)"
  by (simp add: getErrorScore_def specifiedErrorScore_def failedWithError_def
        negativeSegment_def noResult_def emptyDiagnostics_def segmentErrors_def
        finiteSegmentValues_def fl_small_integers)

text \<open>
  Claim C2, amended. A missing result and a result without success score positive
  infinity. For a result with success the score follows the chain: the absolute value
  of a finite \<^verbatim>\<open>diagnostics.rmsError\<close>; else, when \<^verbatim>\<open>averageLinearity\<close> is a number,
  one minus it, rounded to the nearest double, floored at zero; else, when \<^verbatim>\<open>segments\<close>
  is an array with at least one finite \<^verbatim>\<open>rmsError\<close>, the mean of the absolute values of
  the finite ones as double arithmetic computes it: their sum, added up from zero in
  array order with every addition rounded to the nearest double and infinite once it
  overflows, divided by their count and rounded again; else positive infinity.
\<close>

theorem getErrorScore_chain:
  "getErrorScore approximation =
     (case approximation of
        None \<Rightarrow> PosInf
      | Some a \<Rightarrow>
          if \<not> ap_success a then PosInf
          else (case Option.bind (ap_diagnostics a) rmsError of
                  Some (Fin r) \<Rightarrow> Fin \<bar>r\<bar>
                | _ \<Rightarrow>
                   (case ap_averageLinearity a of
                      Some l \<Rightarrow> Math_max0 (js_minus (Fin 1) l)
                    | None \<Rightarrow>
                       (case ap_segments a of
                          None \<Rightarrow> PosInf
                        | Some segs \<Rightarrow>
                            if finiteSegmentValues segs = [] then PosInf
                            else js_divide
                                   (foldl js_plus (Fin 0)
                                      (map (\<lambda>v. Fin \<bar>v\<bar>) (finiteSegmentValues segs)))
                                   (Fin (real (length (finiteSegmentValues segs))))))))"
proof (cases approximation)
  case None
  then show ?thesis by (simp add: getErrorScore_def)
next
  case (Some a)
  have m: "map Fin (map abs vs) = map (\<lambda>v. Fin \<bar>v\<bar>) vs" for vs :: "real list"
    by simp
  show ?thesis
  proof (cases "ap_diagnostics a")
    case None
    with Some show ?thesis
      by (simp add: getErrorScore_def segmentErrors_abs m del: map_map
               split: option.splits)
  next
    case (Some d)
    with \<open>approximation = Some a\<close> show ?thesis
      by (cases "rmsError d")
         (auto simp: getErrorScore_def segmentErrors_abs m simp del: map_map
               split: option.splits jsnum.splits)
  qed
qed

text \<open>
  A successful result with segment errors 1, infinity and -3 scores (1 + 3) / 2; with
  the segment errors \<^verbatim>\<open>0.1\<close> and \<^verbatim>\<open>0.2\<close> it scores \<^verbatim>\<open>0.15000000000000002\<close>; with two
  segment errors of \<^verbatim>\<open>Number.MAX_VALUE\<close> the sum overflows and the score is infinite.
\<close>

theorem getErrorScore_chain_witness:
  "getErrorScore (Some twoSegments) = Fin 2
   \<and> getErrorScore (Some tenthAndFifth) = Fin (double_0_30000000000000004 / 2)
   \<and> double_0_30000000000000004 / 2 = 5404319552844596 / 2 ^ 55
   \<and> (3 / 20 :: real) < double_0_30000000000000004 / 2
   \<and> getErrorScore (Some hugeSegments) = PosInf
   \<and> getErrorScore (Some failedWithError) = PosInf"
proof -
  have "getErrorScore (Some twoSegments) = Fin 2"
    using getErrorScore_chain[of "Some twoSegments"]
    by (simp add: twoSegments_def noResult_def finiteSegmentValues_def fl_small_integers)
  moreover have "getErrorScore (Some tenthAndFifth) = Fin (double_0_30000000000000004 / 2)"
    using getErrorScore_chain[of "Some tenthAndFifth"]
    by (simp add: tenthAndFifth_def noResult_def finiteSegmentValues_def abs_doubles fl_tenth
        fl_tenth_plus_fifth fl_half_of_sum)
  moreover have "double_0_30000000000000004 / 2 = 5404319552844596 / 2 ^ 55"
    "(3 / 20 :: real) < double_0_30000000000000004 / 2"
    by (simp_all add: double_0_30000000000000004_def)
  moreover have "getErrorScore (Some hugeSegments) = PosInf"
    using getErrorScore_chain[of "Some hugeSegments"]
    by (simp add: hugeSegments_def noResult_def finiteSegmentValues_def abs_doubles
        fl_maxValue fl_twice_maxValue)
  moreover have "getErrorScore (Some failedWithError) = PosInf"
    using getErrorScore_chain[of "Some failedWithError"]
    by (simp add: failedWithError_def noResult_def emptyDiagnostics_def)
  ultimately show ?thesis
    by simp
qed

section \<open>A stroke that no strategy fits\<close>

lemma bestAttempt_None:
  "\<forall>a \<in> set (attempts rs). \<not> succeeded (at_approximation a) \<Longrightarrow> bestAttempt lc rs = None"
  by (simp add: bestAttempt_def successfulAttempts_def js_sort_def filter_False)

lemma failed_error: "\<not> succeeded a \<Longrightarrow> getErrorScore a = PosInf"
  by (cases a) (simp_all add: succeeded_def getErrorScore_def)

text \<open>
  Claim C4. When no attempt of the stroke succeeded and advanced mode is off,
  \<^verbatim>\<open>addHandDrawnCurve\<close> returns a result without success whose diagnostics carry the
  list \<^verbatim>\<open>alternatives\<close>: one entry for each of the six attempts, in their order, with
  the label, the type, the success flag (false), the priority and the error (none, the
  score of a failed attempt being infinite) of that attempt.
\<close>

theorem noFit_reports_every_attempt:
  assumes "\<forall>a \<in> set (attempts rs). \<not> succeeded (at_approximation a)"
    and "\<not> hd_useAdvancedMode d"
  shows "(\<exists>res s'. addHandDrawnCurve lc rs maxKnots (Some d) s = (Returned res, s')
           \<and> \<not> r_success res
           \<and> r_message res = ApproximationFailed
           \<and> Option.bind (r_diagnostics res) alternatives = Some (attemptDiagnostics rs))
           \<and> length (attemptDiagnostics rs) = length (attempts rs)
           \<and> (\<forall>i < length (attempts rs).
                 ad_label (attemptDiagnostics rs ! i) = at_label (attempts rs ! i)
               \<and> ad_type (attemptDiagnostics rs ! i)
                   = Option.bind (at_approximation (attempts rs ! i)) ap_type
               \<and> ad_success (attemptDiagnostics rs ! i) = False
               \<and> ad_priority (attemptDiagnostics rs ! i) = at_priority (attempts rs ! i)
               \<and> ad_error (attemptDiagnostics rs ! i) = None)
           \<and> map ad_label (attemptDiagnostics rs)
               = [''piecewiseLinear'', ''linear'', ''singleQuadratic'', ''singleCircle'',
                  ''quadraticBSpline'', ''selectiveHybrid'']
           \<and> map ad_priority (attemptDiagnostics rs) = [0, 2, 3, 4, 5, 7]"
proof -
  have none: "bestAttempt lc rs = None"
    using assms(1) by (rule bestAttempt_None)
  have fails: "\<not> succeeded (piecewiseResult rs)" "\<not> succeeded (linearResult rs)"
    "\<not> succeeded (singleQuadraticResult rs)" "\<not> succeeded (singleCircleResult rs)"
    "\<not> succeeded (quadraticBSplineResult rs)" "\<not> succeeded (selectiveResult rs)"
    using assms(1) by (simp_all add: attempts_def registerAttempt_def)
  have entries: "\<forall>i < length (attempts rs).
                 ad_label (attemptDiagnostics rs ! i) = at_label (attempts rs ! i)
               \<and> ad_type (attemptDiagnostics rs ! i)
                   = Option.bind (at_approximation (attempts rs ! i)) ap_type
               \<and> ad_success (attemptDiagnostics rs ! i) = False
               \<and> ad_priority (attemptDiagnostics rs ! i) = at_priority (attempts rs ! i)
               \<and> ad_error (attemptDiagnostics rs ! i) = None"
  proof (intro allI impI)
    fix i assume i: "i < length (attempts rs)"
    then have mem: "attempts rs ! i \<in> set (attempts rs)" by simp
    then have f: "\<not> succeeded (at_approximation (attempts rs ! i))"
      using assms(1) by blast
    have "at_error (attempts rs ! i) = getErrorScore (at_approximation (attempts rs ! i))"
      using mem by (auto simp: attempts_def registerAttempt_def)
    then have "at_error (attempts rs ! i) = PosInf"
      using f by (simp add: failed_error)
    with i f show "ad_label (attemptDiagnostics rs ! i) = at_label (attempts rs ! i)
               \<and> ad_type (attemptDiagnostics rs ! i)
                   = Option.bind (at_approximation (attempts rs ! i)) ap_type
               \<and> ad_success (attemptDiagnostics rs ! i) = False
               \<and> ad_priority (attemptDiagnostics rs ! i) = at_priority (attempts rs ! i)
               \<and> ad_error (attemptDiagnostics rs ! i) = None"
      by (simp add: attemptDiagnostics_def)
  qed
  have labels: "map ad_label (attemptDiagnostics rs)
               = [''piecewiseLinear'', ''linear'', ''singleQuadratic'', ''singleCircle'',
                  ''quadraticBSpline'', ''selectiveHybrid'']"
    using fails
    by (simp add: attemptDiagnostics_def attempts_def registerAttempt_def linearLabel_def)
  have prios: "map ad_priority (attemptDiagnostics rs) = [0, 2, 3, 4, 5, 7]"
    using fails
    by (simp add: attemptDiagnostics_def attempts_def registerAttempt_def linearPriority_def)
  have len: "length (attemptDiagnostics rs) = length (attempts rs)"
    by (simp add: attemptDiagnostics_def)
  have call: "\<exists>res s'. addHandDrawnCurve lc rs maxKnots (Some d) s = (Returned res, s')
           \<and> \<not> r_success res
           \<and> r_message res = ApproximationFailed
           \<and> Option.bind (r_diagnostics res) alternatives = Some (attemptDiagnostics rs)"
    using none assms(2) by (simp add: addHandDrawnCurve_def Let_def emptyDiagnostics_def)
  from call len entries labels prios show ?thesis by (intro conjI)
qed

text \<open>A stroke on which three strategies returned a failure and three returned nothing.\<close>

theorem noFit_reports_every_attempt_witness:
  "successfulAttempts noFit = []
   \<and> \<not> hd_useAdvancedMode (stroke 0)
   \<and> (\<exists>res s'. addHandDrawnCurve codeUnitCompare noFit None (Some (stroke 0)) emptyManager
                  = (Returned res, s')
          \<and> \<not> r_success res
          \<and> Option.bind (r_diagnostics res) alternatives = Some (attemptDiagnostics noFit))
   \<and> map ad_priority (attemptDiagnostics noFit) = [0, 2, 3, 4, 5, 7]"
proof -
  have h1: "\<forall>a \<in> set (attempts noFit). \<not> succeeded (at_approximation a)"
    by (simp add: attempts_def noFit_def registerAttempt_def succeeded_def failedWithError_def
        noResult_def)
  have h2: "\<not> hd_useAdvancedMode (stroke 0)"
    by (simp add: stroke_def)
  have h3: "successfulAttempts noFit = []"
    using h1 by (simp add: successfulAttempts_def filter_empty_conv)
  from noFit_reports_every_attempt[OF h1 h2, of codeUnitCompare None emptyManager] h2 h3
  show ?thesis by blast
qed

section \<open>Recomputing with another knot count\<close>

lemma customKnots_sorted:
  "customKnots curve k = sort_key pk_knot (filter (\<lambda>p. pk_priority p < k - 2) (cv_preKnots curve))"
  unfolding customKnots_def by (rule js_sort_sort_key) auto

text \<open>
  Claim C5. For a curve that holds its original points, with a graph calculator
  attached, \<^verbatim>\<open>setKnotCount\<close> with knot count \<open>k\<close> calls the quadratic B-spline strategy
  once, on the curve's original points and on exactly those entries of \<^verbatim>\<open>preKnots\<close>
  whose priority is below \<open>k - 2\<close>, in ascending order of their knot position.
\<close>

theorem setKnotCount_refits_with_custom_knots:
  assumes "lookup (curves s) curveId = Some curve"
    and "cv_originalPoints curve = Some originalPoints"
    and "graphCalculator s"
  shows "\<exists>ks. snd (snd (setKnotCount fit curveId k (s, calls))) = calls @ [(originalPoints, ks)]
           \<and> ks = sort_key pk_knot (filter (\<lambda>p. pk_priority p < k - 2) (cv_preKnots curve))
           \<and> set ks = {p \<in> set (cv_preKnots curve). pk_priority p < k - 2}
           \<and> sorted (map pk_knot ks)"
proof -
  let ?ks = "customKnots curve k"
  have "snd (snd (setKnotCount fit curveId k (s, calls))) = calls @ [(originalPoints, ?ks)]"
    using assms by (simp add: setKnotCount_def Let_def split: option.splits)
  moreover have "set ?ks = {p \<in> set (cv_preKnots curve). pk_priority p < k - 2}"
    by (simp add: customKnots_sorted)
  moreover have "sorted (map pk_knot ?ks)"
    by (simp add: customKnots_sorted)
  ultimately show ?thesis
    using customKnots_sorted by blast
qed

text \<open>
  With the candidates (0.7, priority 1), (0.2, priority 0), (0.5, priority 2) and knot
  count 4, the strategy is called with 0.2 and 0.7.
\<close>

theorem setKnotCount_refits_with_custom_knots_witness:
  "lookup (curves twoCurves) 0 = Some (newCurve (lineDescriptor 0))
   \<and> cv_originalPoints (newCurve (lineDescriptor 0)) = Some [(0, 0), (1, 1)]
   \<and> graphCalculator twoCurves
   \<and> snd (snd (setKnotCount refit 0 4 (twoCurves, [])))
       = [([(0, 0), (1, 1)],
           [\<lparr>pk_knot = 1 / 5, pk_priority = 0\<rparr>, \<lparr>pk_knot = 7 / 10, pk_priority = 1\<rparr>])]"
proof -
  have h1: "lookup (curves twoCurves) 0 = Some (newCurve (lineDescriptor 0))"
    by (simp add: lookup_def twoCurves_def emptyManager_def)
  have h2: "cv_originalPoints (newCurve (lineDescriptor 0)) = Some [(0, 0), (1, 1)]"
    by (simp add: newCurve_def lineDescriptor_def)
  have h3: "graphCalculator twoCurves"
    by (simp add: twoCurves_def emptyManager_def)
  have "sort_key pk_knot (filter (\<lambda>p. pk_priority p < 4 - 2)
          (cv_preKnots (newCurve (lineDescriptor 0))))
        = [\<lparr>pk_knot = 1 / 5, pk_priority = 0\<rparr>, \<lparr>pk_knot = 7 / 10, pk_priority = 1\<rparr>]"
    by (simp add: newCurve_def lineDescriptor_def)
  with setKnotCount_refits_with_custom_knots[OF h1 h2 h3, of refit 4 "[]"] h1 h2 h3
  show ?thesis by auto
qed

text \<open>
  Claim C6. When the strategy called by \<^verbatim>\<open>setKnotCount\<close> reports no success, the
  manager, and with it every field of every curve, is left as it was. The manager
  changes only when the strategy reports success, and then by the replacement of the
  equations, the knots and the knot count of that curve.
\<close>

theorem setKnotCount_changes_only_on_success:
  "(\<forall>curve originalPoints.
      lookup (curves s) curveId = Some curve \<and> cv_originalPoints curve = Some originalPoints
      \<and> \<not> ap_success (fit originalPoints (customKnots curve k))
      \<longrightarrow> setKnotCount fit curveId k (s, calls)
            = (Returned (), s, if graphCalculator s
                               then calls @ [(originalPoints, customKnots curve k)] else calls))
   \<and> (fst (snd (setKnotCount fit curveId k (s, calls))) \<noteq> s
      \<longrightarrow> (\<exists>curve originalPoints.
             lookup (curves s) curveId = Some curve
             \<and> cv_originalPoints curve = Some originalPoints
             \<and> ap_success (fit originalPoints (customKnots curve k))
             \<and> fst (snd (setKnotCount fit curveId k (s, calls)))
                 = s\<lparr>curves := (curves s)[nat curveId := Some (curve
                       \<lparr>cv_latexEquations := ap_latexEquations (fit originalPoints (customKnots curve k)),
                        cv_knotPoints := ap_knots (fit originalPoints (customKnots curve k)),
                        cv_knotCount := k\<rparr>)]\<rparr>))"
  by (auto simp: setKnotCount_def Let_def split: option.splits)

text \<open>A failing strategy leaves the two-curve manager alone; a succeeding one changes it.\<close>

theorem setKnotCount_changes_only_on_success_witness:
  "lookup (curves twoCurves) 0 = Some (newCurve (lineDescriptor 0))
   \<and> cv_originalPoints (newCurve (lineDescriptor 0)) = Some [(0, 0), (1, 1)]
   \<and> \<not> ap_success (failingFit [(0, 0), (1, 1)] (customKnots (newCurve (lineDescriptor 0)) 4))
   \<and> fst (snd (setKnotCount failingFit 0 4 (twoCurves, []))) = twoCurves
   \<and> fst (snd (setKnotCount refit 0 4 (twoCurves, []))) \<noteq> twoCurves
   \<and> (\<exists>curve originalPoints. ap_success (refit originalPoints (customKnots curve 4)))"
proof -
  have h1: "lookup (curves twoCurves) 0 = Some (newCurve (lineDescriptor 0))"
    by (simp add: lookup_def twoCurves_def emptyManager_def)
  have h2: "cv_originalPoints (newCurve (lineDescriptor 0)) = Some [(0, 0), (1, 1)]"
    by (simp add: newCurve_def lineDescriptor_def)
  have h3: "\<not> ap_success (failingFit [(0, 0), (1, 1)] (customKnots (newCurve (lineDescriptor 0)) 4))"
    by (simp add: failingFit_def noResult_def)
  have h4: "fst (snd (setKnotCount refit 0 4 (twoCurves, []))) \<noteq> twoCurves"
  proof
    assume "fst (snd (setKnotCount refit 0 4 (twoCurves, []))) = twoCurves"
    then have "map_option cv_knotCount (lookup (curves (fst (snd (setKnotCount refit 0 4 (twoCurves, []))))) 0)
               = map_option cv_knotCount (lookup (curves twoCurves) 0)"
      by simp
    then show False
      by (simp add: setKnotCount_def lookup_def twoCurves_def emptyManager_def newCurve_def
          lineDescriptor_def refit_def closeSpline_def noResult_def Let_def)
  qed
  from setKnotCount_changes_only_on_success[of twoCurves 0 failingFit 4 "[]"] h1 h2 h3
  have "fst (snd (setKnotCount failingFit 0 4 (twoCurves, []))) = twoCurves"
    by simp
  moreover from setKnotCount_changes_only_on_success[of twoCurves 0 refit 4 "[]"] h4
  have "\<exists>curve originalPoints. ap_success (refit originalPoints (customKnots curve 4))"
    by blast
  ultimately show ?thesis
    using h1 h2 h3 h4 by blast
qed


section \<open>Deleting a curve\<close>

lemma length_renumber [simp]: "length (renumber cs) = length cs"
  by (simp add: renumber_def)

lemma nth_renumber:
  "j < length cs \<Longrightarrow> renumber cs ! j = map_option (\<lambda>c. c\<lparr>cv_id := j\<rparr>) (cs ! j)"
  by (simp add: renumber_def)

lemma lookup_Some:
  "lookup cs i = Some c \<Longrightarrow> 0 \<le> i \<and> nat i < length cs \<and> cs ! nat i = Some c"
  by (auto simp: lookup_def split: if_splits)

lemma spliceDelete_valid:
  assumes "0 \<le> i" "nat i < length cs"
  shows "spliceDelete cs i = take (nat i) cs @ drop (Suc (nat i)) cs"
  using assms by (simp add: spliceDelete_def spliceStart_def min_def Let_def)

lemma nth_spliceDelete:
  assumes "0 \<le> i" "nat i < length cs" "j < length cs - 1"
  shows "spliceDelete cs i ! j = cs ! (if j < nat i then j else j + 1)"
  using assms by (auto simp: spliceDelete_valid nth_append min_def)

lemma length_spliceDelete:
  assumes "0 \<le> i" "nat i < length cs"
  shows "length (spliceDelete cs i) = length cs - 1"
  using assms by (auto simp: spliceDelete_valid)

lemma deleteCurve_store:
  assumes "lookup (curves s) i = Some c" "cv_path c \<noteq> None"
  shows "curves (snd (deleteCurve i s)) = updateCurveList (renumber (spliceDelete (curves s) i))"
  using assms by (auto simp: deleteCurve_def addAction_def Let_def split: option.splits)

lemma length_updateCurveList [simp]: "length (updateCurveList cs) = length cs"
  by (simp add: updateCurveList_def)

lemma nth_updateCurveList:
  "j < length cs \<Longrightarrow> updateCurveList cs ! j = map_option listItem (cs ! j)"
  by (simp add: updateCurveList_def)

text \<open>Building a list item touches the knot count alone, and only where it is 0 on a
  curve of type \<^verbatim>\<open>quadratic\<close> that has a graph curve.\<close>

lemma listItem_knotCount:
  "listItem x =
     x\<lparr>cv_knotCount :=
         (if cv_type x = Some ''quadratic'' \<and> cv_graphCurve x \<noteq> None \<and> cv_knotCount x = 0
          then int (length (cv_latexEquations x)) + 1 else cv_knotCount x)\<rparr>"
  by (simp add: listItem_def createKnotCountSlider_def)

lemma strandedPlaceholder_curves:
  "curves strandedPlaceholder = [Some (placeholder (stroke 0))]"
  by (simp add: strandedPlaceholder_def addHandDrawnCurve_def emptyManager_def slot_def
      assignSlot_def addCurveToList_def listItem_def placeholder_def stroke_def
      bestAttempt_lineAndSpline registerAttempt_def Let_def)

text \<open>
  Claim C8, as stated, fails. \<^verbatim>\<open>deleteCurve\<close> rebuilds the curve list, and building
  the item of a curve of type \<^verbatim>\<open>quadratic\<close> writes its knot count: after
  \<^verbatim>\<open>setKnotCount\<close> has set the knot count of curve 1 to 0, deleting curve 0 leaves that
  curve at index 0 with knot count 2. And a slot need not hold a drawn curve: the
  placeholder that \<^verbatim>\<open>addHandDrawnCurve\<close> leaves at index 0 when it throws for want of a
  graph calculator has no path, and \<^verbatim>\<open>deleteCurve\<close> on it throws with nothing removed.
\<close>

theorem deleteCurve_frame_counterexample:
  "map_option cv_path (lookup (curves (fst (snd (setKnotCount refit 1 0 (lineAndQuadratic, []))))) 0)
     = Some (Some ''M 0 0 L 1 1'')
   \<and> map_option cv_knotCount
        (lookup (curves (fst (snd (setKnotCount refit 1 0 (lineAndQuadratic, []))))) 1) = Some 0
   \<and> map_option cv_knotCount
        (lookup (curves (snd (deleteCurve 0
           (fst (snd (setKnotCount refit 1 0 (lineAndQuadratic, []))))))) 0) = Some 2
   \<and> lookup (curves strandedPlaceholder) 0 = Some (placeholder (stroke 0))
   \<and> fst (deleteCurve 0 strandedPlaceholder) = Threw
   \<and> curves (snd (deleteCurve 0 strandedPlaceholder)) = curves strandedPlaceholder"
proof -
  have "map_option cv_path
          (lookup (curves (fst (snd (setKnotCount refit 1 0 (lineAndQuadratic, []))))) 0)
        = Some (Some ''M 0 0 L 1 1'')
   \<and> map_option cv_knotCount
        (lookup (curves (fst (snd (setKnotCount refit 1 0 (lineAndQuadratic, []))))) 1) = Some 0
   \<and> map_option cv_knotCount
        (lookup (curves (snd (deleteCurve 0
           (fst (snd (setKnotCount refit 1 0 (lineAndQuadratic, []))))))) 0) = Some 2"
    by (simp add: setKnotCount_def deleteCurve_def lineAndQuadratic_def emptyManager_def
        lookup_def addAction_def spliceDelete_def spliceStart_def renumber_def drawable_def
        updateCurveList_def listItem_def createKnotCountSlider_def newCurve_def
        splineDescriptor_def lineDescriptor_def refit_def closeSpline_def noResult_def Let_def)
  moreover have "lookup (curves strandedPlaceholder) 0 = Some (placeholder (stroke 0))
   \<and> fst (deleteCurve 0 strandedPlaceholder) = Threw
   \<and> curves (snd (deleteCurve 0 strandedPlaceholder)) = curves strandedPlaceholder"
    by (simp add: deleteCurve_def lookup_def strandedPlaceholder_curves addAction_def
        placeholder_def Let_def)
  ultimately show ?thesis
    by simp
qed

text \<open>
  Claim C8, amended. Deleting the curve at a valid index \<open>i\<close> of a store of \<open>n\<close> slots,
  a curve with a drawn path, leaves \<open>n - 1\<close> slots: the slots before \<open>i\<close> stay in place,
  each slot behind \<open>i\<close> moves one index down, and every remaining curve is the curve it
  was with its id set to its new index and no other field touched, except that a
  remaining curve of type \<^verbatim>\<open>quadratic\<close> with a graph curve and knot count 0 gets the
  knot count \<^verbatim>\<open>latexEquations.length + 1\<close>.
\<close>

theorem deleteCurve_shifts_and_renumbers:
  assumes "lookup (curves s) i = Some c" and "cv_path c \<noteq> None"
  shows "length (curves (snd (deleteCurve i s))) = length (curves s) - 1
       \<and> (\<forall>j < length (curves s) - 1.
            curves (snd (deleteCurve i s)) ! j
              = map_option
                  (\<lambda>x. x\<lparr>cv_id := j,
                          cv_knotCount :=
                            (if cv_type x = Some ''quadratic'' \<and> cv_graphCurve x \<noteq> None
                                \<and> cv_knotCount x = 0
                             then int (length (cv_latexEquations x)) + 1 else cv_knotCount x)\<rparr>)
                  (curves s ! (if j < nat i then j else j + 1)))"
proof -
  from assms(1) have i: "0 \<le> i" "nat i < length (curves s)"
    by (auto dest: lookup_Some)
  have "map_option listItem (map_option (\<lambda>c. c\<lparr>cv_id := j\<rparr>) slot)
        = map_option
            (\<lambda>x. x\<lparr>cv_id := j,
                    cv_knotCount :=
                      (if cv_type x = Some ''quadratic'' \<and> cv_graphCurve x \<noteq> None
                          \<and> cv_knotCount x = 0
                       then int (length (cv_latexEquations x)) + 1 else cv_knotCount x)\<rparr>) slot"
    for j slot
    by (cases slot) (simp_all add: listItem_knotCount)
  then show ?thesis
    using i by (simp add: deleteCurve_store[OF assms] length_spliceDelete nth_renumber
        nth_spliceDelete nth_updateCurveList)
qed

text \<open>Deleting index 2 of five curves: the curves of indices 3 and 4 come to 2 and 3.\<close>

theorem deleteCurve_shifts_and_renumbers_witness:
  "lookup (curves fiveCurves) 2 = Some (newCurve (lineDescriptor 2))
   \<and> cv_path (newCurve (lineDescriptor 2)) \<noteq> None
   \<and> length (curves (snd (deleteCurve 2 fiveCurves))) = 4
   \<and> curves (snd (deleteCurve 2 fiveCurves)) ! 2 = Some ((newCurve (lineDescriptor 3))\<lparr>cv_id := 2\<rparr>)
   \<and> curves (snd (deleteCurve 2 fiveCurves)) ! 3 = Some ((newCurve (lineDescriptor 4))\<lparr>cv_id := 3\<rparr>)"
proof -
  have h1: "lookup (curves fiveCurves) 2 = Some (newCurve (lineDescriptor 2))"
    by (simp add: lookup_def fiveCurves_def emptyManager_def)
  have h2: "cv_path (newCurve (lineDescriptor 2)) \<noteq> None"
    by (simp add: newCurve_def lineDescriptor_def)
  have len: "length (curves fiveCurves) - 1 = 4"
    by (simp add: fiveCurves_def emptyManager_def)
  note inst = deleteCurve_shifts_and_renumbers[OF h1 h2, unfolded len]
  have "curves (snd (deleteCurve 2 fiveCurves)) ! 2 = Some ((newCurve (lineDescriptor 3))\<lparr>cv_id := 2\<rparr>)"
    using inst[THEN conjunct2, rule_format, of 2]
    by (simp add: fiveCurves_def emptyManager_def newCurve_def lineDescriptor_def)
  moreover have "curves (snd (deleteCurve 2 fiveCurves)) ! 3 = Some ((newCurve (lineDescriptor 4))\<lparr>cv_id := 3\<rparr>)"
    using inst[THEN conjunct2, rule_format, of 3]
    by (simp add: fiveCurves_def emptyManager_def newCurve_def lineDescriptor_def)
  ultimately show ?thesis
    using inst h1 h2 by simp
qed

text \<open>
  Claim C10. When \<^verbatim>\<open>deleteCurve\<close> is given the id of a curve and completes, the counter
  \<^verbatim>\<open>settings.nextCurveId\<close> equals the length of the store; after \<^verbatim>\<open>clearCanvas\<close> the
  store is empty and the counter is 0.
\<close>

theorem counter_equals_length_after_removal:
  "(\<forall>c s'. lookup (curves s) i = Some c \<and> deleteCurve i s = (Returned (), s')
      \<longrightarrow> nextCurveId s' = length (curves s'))
   \<and> curves (clearCanvas s) = [] \<and> nextCurveId (clearCanvas s) = 0"
  by (auto simp: deleteCurve_def clearCanvas_def addAction_def updateCurveList_def Let_def
      split: option.splits if_splits)

lemma deleteCurve_twoCurves:
  "deleteCurve 0 twoCurves =
     (Returned (),
      twoCurves\<lparr>curves := [Some ((newCurve (lineDescriptor 1))\<lparr>cv_id := 0\<rparr>)],
                nextCurveId := 1,
                history := [(ActDelete (newCurve (lineDescriptor 0)) 0 2, curves twoCurves)]\<rparr>)"
  by (simp add: deleteCurve_def twoCurves_def emptyManager_def lookup_def addAction_def
      spliceDelete_def spliceStart_def renumber_def drawable_def updateCurveList_def
      listItem_def newCurve_def lineDescriptor_def Let_def)

theorem counter_equals_length_after_removal_witness:
  "lookup (curves twoCurves) 0 = Some (newCurve (lineDescriptor 0))
   \<and> (\<exists>s'. deleteCurve 0 twoCurves = (Returned (), s')
           \<and> nextCurveId s' = length (curves s') \<and> length (curves s') = 1)
   \<and> curves (clearCanvas twoCurves) = [] \<and> nextCurveId (clearCanvas twoCurves) = 0"
proof -
  have h1: "lookup (curves twoCurves) 0 = Some (newCurve (lineDescriptor 0))"
    by (simp add: lookup_def twoCurves_def emptyManager_def)
  obtain s' where h2: "deleteCurve 0 twoCurves = (Returned (), s')"
    and len: "length (curves s') = 1"
    using deleteCurve_twoCurves by simp
  from counter_equals_length_after_removal[of twoCurves 0] h1 h2 len
  show ?thesis by auto
qed

section \<open>Ids that name no curve\<close>

lemma missing_deleteCurve: "lookup (curves s) i = None \<Longrightarrow> deleteCurve i s = (Returned (), s)"
  by (simp add: deleteCurve_def)

lemma missing_toggleCurveVisibility:
  "lookup (curves s) i = None \<Longrightarrow> toggleCurveVisibility i s = s"
  by (simp add: toggleCurveVisibility_def)

lemma missing_toggleDetailVisibility:
  "lookup (curves s) i = None \<Longrightarrow> toggleDetailVisibility i s = s"
  by (simp add: toggleDetailVisibility_def)

lemma missing_setKnotCount:
  "lookup (curves s) i = None \<Longrightarrow> setKnotCount fit i k (s, calls) = (Returned (), s, calls)"
  by (simp add: setKnotCount_def)

text \<open>
  Claim C9, evaluated where the code departs from it. \<^verbatim>\<open>deleteCurve\<close>,
  \<^verbatim>\<open>setKnotCount\<close> and the two toggles return at once on an id that names no curve (the
  four lemmas above), but \<^verbatim>\<open>reorderCurves\<close> has no such guard: with the out-of-range
  id 5 on a store of two curves it inserts an empty slot at the target index, renumbers
  both curves and records a reorder action.
\<close>

theorem reorderCurves_missing_id_changes_store:
  "lookup (curves twoCurves) 5 = None
   \<and> reorderCurves 5 0 twoCurves =
       (Returned (),
        twoCurves\<lparr>curves := [None, Some ((newCurve (lineDescriptor 0))\<lparr>cv_id := 1\<rparr>),
                              Some ((newCurve (lineDescriptor 1))\<lparr>cv_id := 2\<rparr>)],
                  history := [(ActReorder 5 0,
                               [None, Some ((newCurve (lineDescriptor 0))\<lparr>cv_id := 1\<rparr>),
                                Some ((newCurve (lineDescriptor 1))\<lparr>cv_id := 2\<rparr>)])]\<rparr>)"
  by (simp add: reorderCurves_def twoCurves_def emptyManager_def lookup_def spliceDelete_def
      spliceInsert_def spliceStart_def renumber_def drawable_def addAction_def Let_def
      updateCurveList_def listItem_def newCurve_def lineDescriptor_def)


section \<open>The identity invariant\<close>

lemma identityInvariant_iff:
  "identityInvariant cs \<longleftrightarrow> (\<forall>i < length cs. \<forall>c. cs ! i = Some c \<longrightarrow> cv_id c = i)"
  by (auto simp: identityInvariant_def list_all_length split: option.splits)

lemma identityInvariant_renumber: "identityInvariant (renumber cs)"
  by (auto simp: identityInvariant_iff nth_renumber)

lemma identityInvariant_update:
  assumes "identityInvariant cs" "\<forall>c. v = Some c \<longrightarrow> cv_id c = i"
  shows "identityInvariant (cs[i := v])"
proof (cases "i < length cs")
  case True
  then show ?thesis
    using assms by (auto simp: identityInvariant_iff nth_list_update split: if_splits)
next
  case False
  then show ?thesis
    using assms by (simp add: list_update_beyond)
qed

lemma identityInvariant_append:
  assumes "identityInvariant cs" "\<forall>c. v = Some c \<longrightarrow> cv_id c = length cs"
  shows "identityInvariant (cs @ [v])"
  using assms by (auto simp: identityInvariant_iff nth_append less_Suc_eq)

lemma identityInvariant_holes:
  assumes "identityInvariant cs"
  shows "identityInvariant (cs @ replicate n None)"
  using assms by (auto simp: identityInvariant_iff nth_append)

lemma identityInvariant_assignSlot:
  assumes "identityInvariant cs" "\<forall>c. v = Some c \<longrightarrow> cv_id c = i"
  shows "identityInvariant (assignSlot cs i v)"
proof (cases "i < length cs")
  case True
  then show ?thesis
    using assms by (simp add: assignSlot_def identityInvariant_update)
next
  case False
  have "identityInvariant ((cs @ replicate (i - length cs) None) @ [v])"
    using assms False by (intro identityInvariant_append identityInvariant_holes) auto
  with False show ?thesis
    by (simp add: assignSlot_def)
qed

lemma identityInvariant_slot:
  "identityInvariant cs \<Longrightarrow> slot cs i = Some c \<Longrightarrow> cv_id c = i"
  by (auto simp: identityInvariant_iff slot_def split: if_splits)

lemma cv_id_listItem [simp]: "cv_id (listItem c) = cv_id c"
  by (simp add: listItem_knotCount)

lemma identityInvariant_addCurveToList:
  "identityInvariant cs \<Longrightarrow> identityInvariant (addCurveToList i cs)"
  by (auto simp: addCurveToList_def split: option.splits
      intro!: identityInvariant_update dest: identityInvariant_slot)

lemma identityInvariant_updateCurveList:
  "identityInvariant cs \<Longrightarrow> identityInvariant (updateCurveList cs)"
  by (auto simp: identityInvariant_iff nth_updateCurveList)

lemma curves_addCurve:
  "curves (addCurve d s) =
     addCurveToList (d_id d)
       (if slot (curves s) (d_id d) \<noteq> None then (curves s)[d_id d := Some (newCurve d)]
        else curves s @ [Some (newCurve d)])"
  by (simp add: addCurve_def addAction_def Let_def)

lemma cv_id_newCurve [simp]: "cv_id (newCurve d) = d_id d"
  by (simp add: newCurve_def)

lemma identityInvariant_addCurve:
  assumes "identityInvariant (curves s)" "namesSlot d s"
  shows "identityInvariant (curves (addCurve d s))"
  using assms
  by (auto simp: curves_addCurve namesSlot_def slot_def
      intro!: identityInvariant_addCurveToList identityInvariant_update identityInvariant_append
      split: if_splits)

lemma slot_assignSlot [simp]: "slot (assignSlot cs i v) i = v"
  by (auto simp: slot_def assignSlot_def nth_append)

lemma slot_addCurveToList_live: "slot cs i \<noteq> None \<Longrightarrow> slot (addCurveToList i cs) i \<noteq> None"
  by (auto simp: addCurveToList_def slot_def split: option.splits if_splits)

text \<open>\<^verbatim>\<open>addHandDrawnCurve\<close> reserves the slot of its id before it calls \<^verbatim>\<open>addCurve\<close>,
  so the curve always replaces the placeholder in place.\<close>

lemma identityInvariant_addHandDrawnCurve:
  assumes "identityInvariant (curves s)"
  shows "identityInvariant (curves (snd (addHandDrawnCurve lc rs maxKnots descriptor s)))"
proof (cases descriptor)
  case None
  then show ?thesis using assms by (simp add: addHandDrawnCurve_def)
next
  case (Some d)
  define s1 where "s1 = (if slot (curves s) (hd_id d) = None
                    then s\<lparr>curves := addCurveToList (hd_id d)
                                        (assignSlot (curves s) (hd_id d) (Some (placeholder d)))\<rparr>
                    else s)"
  have inv1: "identityInvariant (curves s1)"
    using assms
    by (auto simp: s1_def placeholder_def
        intro!: identityInvariant_addCurveToList identityInvariant_assignSlot)
  have live: "slot (curves s1) (hd_id d) \<noteq> None"
  proof (cases "slot (curves s) (hd_id d) = None")
    case True
    have "slot (addCurveToList (hd_id d)
                  (assignSlot (curves s) (hd_id d) (Some (placeholder d)))) (hd_id d) \<noteq> None"
      by (rule slot_addCurveToList_live) simp
    with True show ?thesis by (simp add: s1_def)
  next
    case False
    then show ?thesis by (auto simp: s1_def)
  qed
  have add: "identityInvariant (curves (addCurve dd s1))" if "d_id dd = hd_id d" for dd
    using inv1 live that by (intro identityInvariant_addCurve) (simp_all add: namesSlot_def)
  show ?thesis
    unfolding addHandDrawnCurve_def Some option.case Let_def s1_def[symmetric]
    using inv1 live
    by (auto split: option.splits
        intro!: add identityInvariant_update dest!: identityInvariant_slot[OF add, rotated])
qed

lemma identityInvariant_deleteCurve:
  assumes "identityInvariant (curves s)"
  shows "identityInvariant (curves (snd (deleteCurve i s)))"
  using assms
  by (auto simp: deleteCurve_def addAction_def Let_def identityInvariant_renumber
      identityInvariant_updateCurveList split: option.splits)

lemma identityInvariant_reorderCurves:
  "identityInvariant (curves (snd (reorderCurves i j s)))"
  by (auto simp: reorderCurves_def addAction_def Let_def identityInvariant_renumber
      identityInvariant_updateCurveList)

lemma identityInvariant_perform:
  assumes "identityInvariant (curves s)" "wellAddressed lc (op # ops) s"
  shows "identityInvariant (curves (perform lc op s))"
  using assms
  by (cases op)
     (auto intro: identityInvariant_addCurve identityInvariant_addHandDrawnCurve
        identityInvariant_deleteCurve identityInvariant_reorderCurves)

text \<open>
  Claim C3, as stated, fails. \<^verbatim>\<open>addCurve\<close> copies the id of its descriptor and, when the
  slot of that id is empty, appends: on the empty store a descriptor of id 1 puts a curve
  of id 1 at index 0.
\<close>

theorem identity_invariant_counterexample:
  "identityInvariant (curves emptyManager)
   \<and> length (curves (run codeUnitCompare [OpAddCurve (lineDescriptor 1)] emptyManager)) = 1
   \<and> map_option cv_id (curves (run codeUnitCompare [OpAddCurve (lineDescriptor 1)] emptyManager) ! 0)
       = Some 1"
  by (simp add: identityInvariant_def emptyManager_def addCurve_def addAction_def slot_def
      addCurveToList_def newCurve_def lineDescriptor_def Let_def)

text \<open>
  Claim C3, amended. Starting from a store in which every non-empty slot holds a curve
  whose id is its index, after any finite sequence of \<^verbatim>\<open>addCurve\<close>,
  \<^verbatim>\<open>addHandDrawnCurve\<close>, \<^verbatim>\<open>deleteCurve\<close> and \<^verbatim>\<open>reorderCurves\<close> in which every descriptor
  handed to \<^verbatim>\<open>addCurve\<close> names a non-empty slot or the length of the store, every
  non-empty slot again holds a curve whose id is its index.
\<close>

theorem identity_invariant_preserved:
  assumes "identityInvariant (curves s)" and "wellAddressed lc ops s"
  shows "\<forall>i < length (curves (run lc ops s)). \<forall>c.
           curves (run lc ops s) ! i = Some c \<longrightarrow> cv_id c = i"
proof -
  have "identityInvariant (curves (run lc ops s))"
    using assms
  proof (induction ops arbitrary: s)
    case Nil
    then show ?case by simp
  next
    case (Cons op ops)
    have "identityInvariant (curves (perform lc op s))"
      using Cons.prems by (rule identityInvariant_perform)
    moreover have "wellAddressed lc ops (perform lc op s)"
      using Cons.prems(2) by (cases op) auto
    ultimately show ?case
      using Cons.IH by simp
  qed
  then show ?thesis
    by (simp add: identityInvariant_iff)
qed

text \<open>
  A stroke is drawn under id 0 and fitted, a curve is added by a descriptor that names
  the next index, the first is moved behind the second, and the curve then at index 0 is
  deleted.
\<close>


lemma run_example:
  "map (map_option cv_type)
     (curves (run codeUnitCompare
        [OpAddHandDrawnCurve lineAndSpline None (Some (stroke 0)), OpAddCurve (lineDescriptor 1),
         OpReorderCurves 0 1, OpDeleteCurve 0] emptyManager))
   = [Some (Some ''linear'')]"
  by (simp add: emptyManager_def addHandDrawnCurve_def addCurve_def addAction_def
      slot_def assignSlot_def addCurveToList_def listItem_def placeholder_def newCurve_def
      stroke_def lineDescriptor_def bestAttempt_lineAndSpline registerAttempt_def
      roughLine_def noResult_def reorderCurves_def deleteCurve_def lookup_def spliceDelete_def
      spliceInsert_def spliceStart_def renumber_def drawable_def updateCurveList_def Let_def)

theorem identity_invariant_preserved_witness:
  "identityInvariant (curves emptyManager)
   \<and> wellAddressed codeUnitCompare
        [OpAddHandDrawnCurve lineAndSpline None (Some (stroke 0)), OpAddCurve (lineDescriptor 1),
         OpReorderCurves 0 1, OpDeleteCurve 0] emptyManager
   \<and> map (map_option cv_id)
        (curves (run codeUnitCompare
           [OpAddHandDrawnCurve lineAndSpline None (Some (stroke 0)),
            OpAddCurve (lineDescriptor 1), OpReorderCurves 0 1, OpDeleteCurve 0] emptyManager))
       = [Some 0]"
proof -
  let ?ops = "[OpAddHandDrawnCurve lineAndSpline None (Some (stroke 0)),
               OpAddCurve (lineDescriptor 1), OpReorderCurves 0 1, OpDeleteCurve 0]"
  have h1: "identityInvariant (curves emptyManager)"
    by (simp add: identityInvariant_def emptyManager_def)
  have h2: "wellAddressed codeUnitCompare ?ops emptyManager"
    by (simp add: namesSlot_def emptyManager_def addHandDrawnCurve_def addCurve_def addAction_def
        slot_def assignSlot_def addCurveToList_def listItem_def placeholder_def newCurve_def
        stroke_def lineDescriptor_def bestAttempt_lineAndSpline registerAttempt_def
        roughLine_def noResult_def Let_def)
  obtain c where c: "curves (run codeUnitCompare ?ops emptyManager) = [Some c]"
    using run_example by (auto simp: map_eq_Cons_conv)
  from identity_invariant_preserved[OF h1 h2] c have "cv_id c = 0"
    by simp
  with c h1 h2 show ?thesis
    by simp
qed

section \<open>The moment of the history record\<close>

text \<open>
  Claim C7, as stated, fails. \<^verbatim>\<open>toggleCurveVisibility\<close> calls \<^verbatim>\<open>addAction\<close> first and
  changes the curve afterwards: the one record it pushes was pushed while the curve was
  still visible, and the curve is hidden when the operation returns. \<^verbatim>\<open>deleteCurve\<close>
  likewise pushes its record while the store still holds both curves. And
  \<^verbatim>\<open>setKnotCount\<close> changes the knot count of a curve from 2 to 4 with no record pushed.
\<close>

theorem push_before_mutation_counterexample:
  "history (toggleCurveVisibility 0 twoCurves)
     = [(ActToggleVisibility 0 False True, curves twoCurves)]
   \<and> map_option cv_isHidden (lookup (curves twoCurves) 0) = Some False
   \<and> map_option cv_isHidden (lookup (curves (toggleCurveVisibility 0 twoCurves)) 0) = Some True
   \<and> history (snd (deleteCurve 0 twoCurves))
       = [(ActDelete (newCurve (lineDescriptor 0)) 0 2, curves twoCurves)]
   \<and> length (curves (snd (deleteCurve 0 twoCurves))) = 1
   \<and> length (curves twoCurves) = 2
   \<and> history (fst (snd (setKnotCount refit 0 4 (twoCurves, [])))) = []
   \<and> map_option cv_knotCount (lookup (curves twoCurves) 0) = Some 2
   \<and> map_option cv_knotCount
        (lookup (curves (fst (snd (setKnotCount refit 0 4 (twoCurves, []))))) 0) = Some 4"
proof -
  have "history (toggleCurveVisibility 0 twoCurves)
     = [(ActToggleVisibility 0 False True, curves twoCurves)]
   \<and> map_option cv_isHidden (lookup (curves twoCurves) 0) = Some False
   \<and> map_option cv_isHidden (lookup (curves (toggleCurveVisibility 0 twoCurves)) 0) = Some True"
    by (simp add: toggleCurveVisibility_def setCurveVisibility_def addAction_def lookup_def
        twoCurves_def emptyManager_def newCurve_def Let_def)
  moreover have "history (snd (deleteCurve 0 twoCurves))
       = [(ActDelete (newCurve (lineDescriptor 0)) 0 2, curves twoCurves)]
   \<and> length (curves (snd (deleteCurve 0 twoCurves))) = 1
   \<and> length (curves twoCurves) = 2"
    by (simp add: deleteCurve_twoCurves) (simp add: twoCurves_def emptyManager_def)
  moreover have "history (fst (snd (setKnotCount refit 0 4 (twoCurves, [])))) = []
   \<and> map_option cv_knotCount (lookup (curves twoCurves) 0) = Some 2
   \<and> map_option cv_knotCount
        (lookup (curves (fst (snd (setKnotCount refit 0 4 (twoCurves, []))))) 0) = Some 4"
    by (simp add: setKnotCount_def lookup_def twoCurves_def emptyManager_def newCurve_def
        lineDescriptor_def refit_def closeSpline_def noResult_def Let_def)
  ultimately show ?thesis
    by simp
qed

text \<open>
  Claim C7, amended. \<^verbatim>\<open>addCurve\<close> and a completed \<^verbatim>\<open>reorderCurves\<close> push exactly one
  action record, after the store has been changed. \<^verbatim>\<open>deleteCurve\<close>,
  \<^verbatim>\<open>toggleCurveVisibility\<close> and \<^verbatim>\<open>toggleDetailVisibility\<close> on the id of a curve, and
  \<^verbatim>\<open>recordStyleChange\<close> on a selected curve whose colour or size differs, push exactly
  one record before the store is changed. \<^verbatim>\<open>setKnotCount\<close> pushes none; the change
  listener of the knot-count slider pushes exactly one, before it calls
  \<^verbatim>\<open>setKnotCount\<close>, when the value differs from the one it remembered. In each case the
  record is pushed before the operation returns.
\<close>

theorem history_push_order:
  "history (addCurve d s)
     = history s @ [(ActAdd (slot (curves (addCurve d s)) (d_id d)), curves (addCurve d s))]
   \<and> (\<forall>s'. reorderCurves fromId toId s = (Returned (), s')
         \<longrightarrow> history s' = history s @ [(ActReorder fromId toId, curves s')])
   \<and> (\<forall>c. lookup (curves s) cid = Some c
         \<longrightarrow> history (snd (deleteCurve cid s))
             = history s @ [(ActDelete c cid (nextCurveId s), curves s)]
           \<and> history (toggleCurveVisibility cid s)
             = history s @ [(ActToggleVisibility cid (cv_isHidden c) (\<not> cv_isHidden c), curves s)]
           \<and> history (toggleDetailVisibility cid s)
             = history s @ [(ActToggleDetails cid (cv_isDetailShown c) (\<not> cv_isDetailShown c),
                             curves s)])
   \<and> (\<forall>c. selectCurveId s = Some cid \<and> lookup (curves s) cid = Some c
           \<and> (cv_color c \<noteq> newColor \<or> cv_size c \<noteq> newSize)
         \<longrightarrow> history (snd (recordStyleChange newColor newSize s))
             = history s @ [(ActStyleChange cid (cv_color c) (cv_size c) newColor newSize,
                             curves s)])
   \<and> history (fst (snd (setKnotCount fit cid k (s, calls)))) = history s
   \<and> (oldValue \<noteq> newValue
         \<longrightarrow> history (fst (snd (knotSliderChange fit cid oldValue newValue (s, calls))))
             = history s @ [(ActKnotCountChanged cid oldValue newValue, curves s)])"
proof (intro conjI allI impI)
  show "history (addCurve d s)
     = history s @ [(ActAdd (slot (curves (addCurve d s)) (d_id d)), curves (addCurve d s))]"
    by (simp add: addCurve_def addAction_def Let_def)
next
  fix s' assume "reorderCurves fromId toId s = (Returned (), s')"
  then show "history s' = history s @ [(ActReorder fromId toId, curves s')]"
    by (auto simp: reorderCurves_def addAction_def Let_def split: if_splits)
next
  fix c assume c: "lookup (curves s) cid = Some c"
  show "history (snd (deleteCurve cid s))
             = history s @ [(ActDelete c cid (nextCurveId s), curves s)]"
    using c by (simp add: deleteCurve_def addAction_def Let_def split: option.splits)
  show "history (toggleCurveVisibility cid s)
             = history s @ [(ActToggleVisibility cid (cv_isHidden c) (\<not> cv_isHidden c), curves s)]"
    using c by (simp add: toggleCurveVisibility_def setCurveVisibility_def addAction_def Let_def
        split: option.splits)
  show "history (toggleDetailVisibility cid s)
             = history s @ [(ActToggleDetails cid (cv_isDetailShown c) (\<not> cv_isDetailShown c),
                             curves s)]"
    using c by (simp add: toggleDetailVisibility_def setCurveDetailState_def addAction_def Let_def
        split: option.splits)
next
  fix c assume "selectCurveId s = Some cid \<and> lookup (curves s) cid = Some c
           \<and> (cv_color c \<noteq> newColor \<or> cv_size c \<noteq> newSize)"
  then show "history (snd (recordStyleChange newColor newSize s))
             = history s @ [(ActStyleChange cid (cv_color c) (cv_size c) newColor newSize,
                             curves s)]"
    by (auto simp: recordStyleChange_def addAction_def Let_def)
next
  show hk: "history (fst (snd (setKnotCount fit cid k (s, calls)))) = history s" for k s
    by (simp add: setKnotCount_def Let_def split: option.splits)
  assume "oldValue \<noteq> newValue"
  then show "history (fst (snd (knotSliderChange fit cid oldValue newValue (s, calls))))
             = history s @ [(ActKnotCountChanged cid oldValue newValue, curves s)]"
    by (simp add: knotSliderChange_def hk addAction_def)
qed

text \<open>On the two-curve store with curve 0 selected, each operation pushes its one record.\<close>

theorem history_push_order_witness:
  "reorderCurves 0 1 selected
     = (Returned (), snd (reorderCurves 0 1 selected))
   \<and> lookup (curves selected) 0 = Some (newCurve (lineDescriptor 0))
   \<and> selectCurveId selected = Some 0
   \<and> cv_color (newCurve (lineDescriptor 0)) \<noteq> Some ''#0f0''
   \<and> (3::int) \<noteq> 4
   \<and> length (history (addCurve (lineDescriptor 2) selected)) = 1
   \<and> length (history (snd (reorderCurves 0 1 selected))) = 1
   \<and> history (snd (deleteCurve 0 selected))
       = [(ActDelete (newCurve (lineDescriptor 0)) 0 2, curves selected)]
   \<and> history (toggleCurveVisibility 0 selected)
       = [(ActToggleVisibility 0 False True, curves selected)]
   \<and> history (toggleDetailVisibility 0 selected)
       = [(ActToggleDetails 0 True False, curves selected)]
   \<and> history (snd (recordStyleChange (Some ''#0f0'') (Some 4) selected))
       = [(ActStyleChange 0 (Some ''#f00'') (Some 4) (Some ''#0f0'') (Some 4), curves selected)]
   \<and> history (fst (snd (setKnotCount refit 0 4 (selected, [])))) = []
   \<and> history (fst (snd (knotSliderChange refit 0 3 4 (selected, []))))
       = [(ActKnotCountChanged 0 3 4, curves selected)]"
proof -
  have h0: "history selected = []"
    by (simp add: selected_def twoCurves_def emptyManager_def)
  have h1: "reorderCurves 0 1 selected = (Returned (), snd (reorderCurves 0 1 selected))"
    by (simp add: reorderCurves_def selected_def twoCurves_def emptyManager_def lookup_def
        spliceDelete_def spliceInsert_def spliceStart_def renumber_def drawable_def
        updateCurveList_def listItem_def newCurve_def lineDescriptor_def Let_def)
  have h2: "lookup (curves selected) 0 = Some (newCurve (lineDescriptor 0))"
    by (simp add: lookup_def selected_def twoCurves_def emptyManager_def)
  have h3: "selectCurveId selected = Some 0"
    by (simp add: selected_def)
  have h4: "cv_color (newCurve (lineDescriptor 0)) \<noteq> Some ''#0f0''"
    by (simp add: newCurve_def lineDescriptor_def)
  have vals: "cv_isHidden (newCurve (lineDescriptor 0)) = False"
    "cv_isDetailShown (newCurve (lineDescriptor 0)) = True"
    "cv_color (newCurve (lineDescriptor 0)) = Some ''#f00''"
    "cv_size (newCurve (lineDescriptor 0)) = Some 4"
    "nextCurveId selected = 2"
    by (simp_all add: newCurve_def lineDescriptor_def selected_def twoCurves_def emptyManager_def)
  from history_push_order[of "lineDescriptor 2" selected 0 1 0 "Some ''#0f0''" "Some 4"
      refit 4 "[]" 3 4] h0 h1 h2 h3 h4 vals
  show ?thesis
    by simp
qed


end
